theory Spec2Isabelle
  imports Complex_Main
begin

section \<open>Reference data and lookup maps\<close>

text \<open>
  The five JSON collections of \<^verbatim>\<open>src/index.ts\<close> are rows of strings. A string is a list of
  characters, each standing for one code unit below 256; numbers are real numbers.
\<close>

record District =
  d_id :: string
  d_name :: string

record County =
  c_id :: string
  c_name :: string
  c_district :: string

record SubCounty =
  s_id :: string
  s_name :: string
  s_county :: string

record Parish =
  p_id :: string
  p_name :: string
  p_subcounty :: string

record Village =
  v_id :: string
  v_name :: string
  v_parish :: string

text \<open>One hit of a fuzzy index: the matched row and its dissimilarity score.\<close>

record 'a FuseResult =
  item :: 'a
  fuseScore :: real

text \<open>
  The module-level constants: the five imported collections and the five fuzzy indexes
  built over them. The indexes come from the external matching library; each is the
  function \<^verbatim>\<open>search(term, { limit })\<close> of that index.
\<close>

record Env =
  districts :: "District list"
  counties :: "County list"
  subCounties :: "SubCounty list"
  parishes :: "Parish list"
  villages :: "Village list"
  districtFuse :: "string \<Rightarrow> int \<Rightarrow> District FuseResult list"
  countyFuse :: "string \<Rightarrow> int \<Rightarrow> County FuseResult list"
  subCountyFuse :: "string \<Rightarrow> int \<Rightarrow> SubCounty FuseResult list"
  parishFuse :: "string \<Rightarrow> int \<Rightarrow> Parish FuseResult list"
  villageFuse :: "string \<Rightarrow> int \<Rightarrow> Village FuseResult list"

text \<open>
  \<^verbatim>\<open>xs.forEach((x) => m.set(x.id, x))\<close> followed by \<^verbatim>\<open>m.get(k)\<close>: a later row with the
  same id replaces an earlier one, so the lookup finds the last row with that id.
\<close>

definition mapGet :: "('a \<Rightarrow> string) \<Rightarrow> 'a list \<Rightarrow> string \<Rightarrow> 'a option" where
  "mapGet key xs k = find (\<lambda>x. key x = k) (rev xs)"

definition districtMap :: "Env \<Rightarrow> string \<Rightarrow> District option" where
  "districtMap env = mapGet d_id (districts env)"

definition countyMap :: "Env \<Rightarrow> string \<Rightarrow> County option" where
  "countyMap env = mapGet c_id (counties env)"

definition subCountyMap :: "Env \<Rightarrow> string \<Rightarrow> SubCounty option" where
  "subCountyMap env = mapGet s_id (subCounties env)"

definition parishMap :: "Env \<Rightarrow> string \<Rightarrow> Parish option" where
  "parishMap env = mapGet p_id (parishes env)"

section \<open>Hierarchy accessors\<close>

text \<open>The object of ancestor names spread into every result; an absent or undefined key is \<open>None\<close>.\<close>

record Hierarchy =
  h_village :: "string option"
  h_parish :: "string option"
  h_subCounty :: "string option"
  h_county :: "string option"
  h_district :: "string option"

definition noHierarchy :: Hierarchy where
  "noHierarchy = \<lparr>h_village = None, h_parish = None, h_subCounty = None,
                   h_county = None, h_district = None\<rparr>"

definition getDistrictHierarchy :: "Env \<Rightarrow> string \<Rightarrow> Hierarchy" where
  "getDistrictHierarchy env districtId =
     (case districtMap env districtId of
        Some district \<Rightarrow> noHierarchy\<lparr>h_district := Some (d_name district)\<rparr>
      | None \<Rightarrow> noHierarchy)"

definition getCountyHierarchy :: "Env \<Rightarrow> string \<Rightarrow> Hierarchy" where
  "getCountyHierarchy env countyId =
     (case countyMap env countyId of
        None \<Rightarrow> noHierarchy
      | Some county \<Rightarrow>
          (let district = districtMap env (c_district county)
           in noHierarchy\<lparr>h_county := Some (c_name county),
                           h_district := map_option d_name district\<rparr>))"

definition getSubCountyHierarchy :: "Env \<Rightarrow> string \<Rightarrow> Hierarchy" where
  "getSubCountyHierarchy env subCountyId =
     (case subCountyMap env subCountyId of
        None \<Rightarrow> noHierarchy
      | Some subCounty \<Rightarrow>
          (let county = countyMap env (s_county subCounty);
               district = (case county of Some c \<Rightarrow> districtMap env (c_district c) | None \<Rightarrow> None)
           in noHierarchy\<lparr>h_subCounty := Some (s_name subCounty),
                           h_county := map_option c_name county,
                           h_district := map_option d_name district\<rparr>))"

definition getParishHierarchy :: "Env \<Rightarrow> string \<Rightarrow> Hierarchy" where
  "getParishHierarchy env parishId =
     (case parishMap env parishId of
        None \<Rightarrow> noHierarchy
      | Some parish \<Rightarrow>
          (let subCounty = subCountyMap env (p_subcounty parish);
               county = (case subCounty of Some s \<Rightarrow> countyMap env (s_county s) | None \<Rightarrow> None);
               district = (case county of Some c \<Rightarrow> districtMap env (c_district c) | None \<Rightarrow> None)
           in noHierarchy\<lparr>h_parish := Some (p_name parish),
                           h_subCounty := map_option s_name subCounty,
                           h_county := map_option c_name county,
                           h_district := map_option d_name district\<rparr>))"

definition getVillageHierarchy :: "Env \<Rightarrow> Village \<Rightarrow> Hierarchy" where
  "getVillageHierarchy env village =
     (let parish = parishMap env (v_parish village);
          subCounty = (case parish of Some p \<Rightarrow> subCountyMap env (p_subcounty p) | None \<Rightarrow> None);
          county = (case subCounty of Some s \<Rightarrow> countyMap env (s_county s) | None \<Rightarrow> None);
          district = (case county of Some c \<Rightarrow> districtMap env (c_district c) | None \<Rightarrow> None)
      in \<lparr>h_village = Some (v_name village),
          h_parish = map_option p_name parish,
          h_subCounty = map_option s_name subCounty,
          h_county = map_option c_name county,
          h_district = map_option d_name district\<rparr>)"

text \<open>The identifier chain; a key that is absent or holds \<^verbatim>\<open>undefined\<close> is \<open>None\<close>.\<close>

record HierarchyChain =
  districtId :: "string option"
  countyId :: "string option"
  subCountyId :: "string option"
  parishId :: "string option"
  villageId :: "string option"

definition emptyChain :: HierarchyChain where
  "emptyChain = \<lparr>districtId = None, countyId = None, subCountyId = None,
                  parishId = None, villageId = None\<rparr>"

definition getHierarchyChain :: "Env \<Rightarrow> string \<Rightarrow> string \<Rightarrow> HierarchyChain" where
  "getHierarchyChain env type ident =
     (if type = ''district'' then emptyChain\<lparr>districtId := Some ident\<rparr>
      else if type = ''county'' then
        (case countyMap env ident of
           Some county \<Rightarrow> emptyChain\<lparr>districtId := Some (c_district county),
                                       countyId := Some ident\<rparr>
         | None \<Rightarrow> emptyChain)
      else if type = ''subCounty'' then
        (case subCountyMap env ident of
           None \<Rightarrow> emptyChain
         | Some subCounty \<Rightarrow>
             (let county = countyMap env (s_county subCounty)
              in emptyChain\<lparr>districtId := map_option c_district county,
                            countyId := Some (s_county subCounty),
                            subCountyId := Some ident\<rparr>))
      else if type = ''parish'' then
        (case parishMap env ident of
           None \<Rightarrow> emptyChain
         | Some parish \<Rightarrow>
             (let subCounty = subCountyMap env (p_subcounty parish);
                  county = (case subCounty of Some s \<Rightarrow> countyMap env (s_county s) | None \<Rightarrow> None)
              in emptyChain\<lparr>districtId := map_option c_district county,
                            countyId := map_option s_county subCounty,
                            subCountyId := Some (p_subcounty parish),
                            parishId := Some ident\<rparr>))
      else if type = ''village'' then
        (case find (\<lambda>v. v_id v = ident) (villages env) of
           None \<Rightarrow> emptyChain
         | Some village \<Rightarrow>
             (let parish = parishMap env (v_parish village);
                  subCounty = (case parish of Some p \<Rightarrow> subCountyMap env (p_subcounty p) | None \<Rightarrow> None);
                  county = (case subCounty of Some s \<Rightarrow> countyMap env (s_county s) | None \<Rightarrow> None)
              in \<lparr>districtId = map_option c_district county,
                  countyId = map_option s_county subCounty,
                  subCountyId = map_option p_subcounty parish,
                  parishId = Some (v_parish village),
                  villageId = Some ident\<rparr>))
      else emptyChain)"

section \<open>Search results and relatedness\<close>

datatype UnitType = TDistrict | TCounty | TSubCounty | TParish | TVillage

fun typeName :: "UnitType \<Rightarrow> string" where
  "typeName TDistrict = ''district''"
| "typeName TCounty = ''county''"
| "typeName TSubCounty = ''subCounty''"
| "typeName TParish = ''parish''"
| "typeName TVillage = ''village''"

record SearchResult =
  r_type :: UnitType
  r_id :: string
  r_name :: string
  score :: real
  matchedTerm :: "string option"
  names :: Hierarchy

text \<open>
  \<^verbatim>\<open>a && a === b\<close> on optional strings: the left operand counts only when it is defined
  and not the empty string.
\<close>

definition truthy :: "string option \<Rightarrow> bool" where
  "truthy x = (case x of None \<Rightarrow> False | Some s \<Rightarrow> s \<noteq> [])"

definition areRelated :: "Env \<Rightarrow> SearchResult \<Rightarrow> SearchResult \<Rightarrow> bool" where
  "areRelated env result1 result2 =
     (let chain1 = getHierarchyChain env (typeName (r_type result1)) (r_id result1);
          chain2 = getHierarchyChain env (typeName (r_type result2)) (r_id result2)
      in (truthy (districtId chain1) \<and> districtId chain1 = districtId chain2) \<or>
         (truthy (countyId chain1) \<and> countyId chain1 = countyId chain2) \<or>
         (truthy (subCountyId chain1) \<and> subCountyId chain1 = subCountyId chain2) \<or>
         (truthy (parishId chain1) \<and> parishId chain1 = parishId chain2))"

section \<open>Single-term fuzzy search\<close>

text \<open>
  \<^verbatim>\<open>result.score || 0\<close> on a number: zero stays zero, every other number is kept.
  Both callers of \<^verbatim>\<open>fuzzySearchSingleTerm\<close> pass the limit, so its default is never used.
\<close>

definition orZero :: "real \<Rightarrow> real" where
  "orZero s = (if s = 0 then 0 else s)"

definition fuzzySearchSingleTerm :: "Env \<Rightarrow> string \<Rightarrow> int \<Rightarrow> SearchResult list" where
  "fuzzySearchSingleTerm env term maxResults =
     map (\<lambda>result. \<lparr>r_type = TDistrict, r_id = d_id (item result), r_name = d_name (item result),
                     score = 1 - orZero (fuseScore result), matchedTerm = Some term,
                     names = getDistrictHierarchy env (d_id (item result))\<rparr>)
         (districtFuse env term maxResults)
     @ map (\<lambda>result. \<lparr>r_type = TCounty, r_id = c_id (item result), r_name = c_name (item result),
                     score = 1 - orZero (fuseScore result), matchedTerm = Some term,
                     names = getCountyHierarchy env (c_id (item result))\<rparr>)
         (countyFuse env term maxResults)
     @ map (\<lambda>result. \<lparr>r_type = TSubCounty, r_id = s_id (item result), r_name = s_name (item result),
                     score = 1 - orZero (fuseScore result), matchedTerm = Some term,
                     names = getSubCountyHierarchy env (s_id (item result))\<rparr>)
         (subCountyFuse env term maxResults)
     @ map (\<lambda>result. \<lparr>r_type = TParish, r_id = p_id (item result), r_name = p_name (item result),
                     score = 1 - orZero (fuseScore result), matchedTerm = Some term,
                     names = getParishHierarchy env (p_id (item result))\<rparr>)
         (parishFuse env term maxResults)
     @ map (\<lambda>result. \<lparr>r_type = TVillage, r_id = v_id (item result), r_name = v_name (item result),
                     score = 1 - orZero (fuseScore result), matchedTerm = Some term,
                     names = getVillageHierarchy env (item result)\<rparr>)
         (villageFuse env term maxResults)"

section \<open>Query parser\<close>

text \<open>The characters below 256 that \<^verbatim>\<open>\s\<close> and \<^verbatim>\<open>trim()\<close> treat as white space.\<close>

definition isSpace :: "char \<Rightarrow> bool" where
  "isSpace c = (c \<in> set [CHR 0x09, CHR 0x0A, CHR 0x0B, CHR 0x0C, CHR 0x0D, CHR 0x20, CHR 0xA0])"

text \<open>
  \<^verbatim>\<open>\s+in\s+\<close> or \<^verbatim>\<open>\s+at\s+\<close> under the flag \<^verbatim>\<open>i\<close>, tried at the start of the string:
  the two letters are given in lower and upper case; the result is what follows the match.
  Both runs of white space are taken whole (a shorter first run would have to be followed
  by a letter, and nothing follows the second run in the pattern).
\<close>

definition matchWord :: "char \<times> char \<Rightarrow> char \<times> char \<Rightarrow> string \<Rightarrow> string option" where
  "matchWord l1 l2 s =
     (case s of
        [] \<Rightarrow> None
      | c # cs \<Rightarrow>
          if \<not> isSpace c then None
          else (case dropWhile isSpace cs of
                  x # y # rest \<Rightarrow>
                    if (x = fst l1 \<or> x = snd l1) \<and> (y = fst l2 \<or> y = snd l2) then
                      (case rest of
                         [] \<Rightarrow> None
                       | z # zs \<Rightarrow> if isSpace z then Some (dropWhile isSpace zs) else None)
                    else None
                | _ \<Rightarrow> None))"

text \<open>The separator pattern \<^verbatim>\<open>/[,;]|\s+in\s+|\s+at\s+/i\<close>, alternatives in their order.\<close>

definition matchSeparator :: "string \<Rightarrow> string option" where
  "matchSeparator s =
     (case s of
        [] \<Rightarrow> None
      | c # cs \<Rightarrow>
          if c = CHR '','' \<or> c = CHR '';'' then Some cs
          else (case matchWord (CHR ''i'', CHR ''I'') (CHR ''n'', CHR ''N'') s of
                  Some rest \<Rightarrow> Some rest
                | None \<Rightarrow> matchWord (CHR ''a'', CHR ''A'') (CHR ''t'', CHR ''T'') s))"

text \<open>
  \<^verbatim>\<open>query.split(separators)\<close>: scan from the left, cut at the first position where the
  pattern matches and go on after the match; the first argument is the current piece, reversed.
\<close>

function splitSeparators :: "string \<Rightarrow> string \<Rightarrow> string list" where
  "splitSeparators acc [] = [rev acc]"
| "splitSeparators acc (c # cs) =
     (case matchSeparator (c # cs) of
        Some rest \<Rightarrow> rev acc # splitSeparators [] rest
      | None \<Rightarrow> splitSeparators (c # acc) cs)"
  by pat_completeness auto

lemma length_dropWhile_le_aux: "length (dropWhile P xs) \<le> length xs"
  by (induction xs) auto

lemma matchWord_shorter: "matchWord l1 l2 s = Some rest \<Longrightarrow> length rest < length s"
proof -
  assume m: "matchWord l1 l2 s = Some rest"
  then obtain c cs where s: "s = c # cs"
    by (cases s) (auto simp: matchWord_def)
  from m s obtain x y z zs where d: "dropWhile isSpace cs = x # y # z # zs"
    and r: "rest = dropWhile isSpace zs"
    by (auto simp: matchWord_def split: list.splits if_splits)
  have "length rest \<le> length zs"
    unfolding r by (rule length_dropWhile_le_aux)
  moreover have "length (dropWhile isSpace cs) \<le> length cs"
    by (rule length_dropWhile_le_aux)
  ultimately show ?thesis
    using d s by simp
qed

lemma matchSeparator_shorter: "matchSeparator s = Some rest \<Longrightarrow> length rest < length s"
  by (cases s) (auto simp: matchSeparator_def split: if_splits option.splits dest: matchWord_shorter)

termination splitSeparators
  by (relation "measure (\<lambda>(acc, s). length s)") (auto dest: matchSeparator_shorter)

definition trim :: "string \<Rightarrow> string" where
  "trim s = rev (dropWhile isSpace (rev (dropWhile isSpace s)))"

definition parseQuery :: "string \<Rightarrow> string list" where
  "parseQuery query = filter (\<lambda>term. length term > 0) (map trim (splitSeparators [] query))"

section \<open>Array and number helpers\<close>

text \<open>
  \<^verbatim>\<open>xs.sort(cmp)\<close>: the sort is stable, so with a comparator that orders the elements
  consistently it is insertion of each element before the first one that does not have to
  precede it (\<^verbatim>\<open>cmp(x, y) <= 0\<close>).
\<close>

fun insertSorted :: "('a \<Rightarrow> 'a \<Rightarrow> real) \<Rightarrow> 'a \<Rightarrow> 'a list \<Rightarrow> 'a list" where
  "insertSorted cmp x [] = [x]"
| "insertSorted cmp x (y # ys) =
     (if cmp x y \<le> 0 then x # y # ys else y # insertSorted cmp x ys)"

definition jsSort :: "('a \<Rightarrow> 'a \<Rightarrow> real) \<Rightarrow> 'a list \<Rightarrow> 'a list" where
  "jsSort cmp xs = foldr (insertSorted cmp) xs []"

text \<open>\<^verbatim>\<open>xs.slice(0, end)\<close>: a negative end counts from the end of the array.\<close>

definition sliceTo :: "int \<Rightarrow> 'a list \<Rightarrow> 'a list" where
  "sliceTo e xs =
     (let len = int (length xs);
          final = (if e < 0 then max (len + e) 0 else min e len)
      in take (nat final) xs)"

fun digitsOf :: "nat \<Rightarrow> string" where
  "digitsOf n =
     (if n < 10 then [''0123456789'' ! n]
      else digitsOf (n div 10) @ [''0123456789'' ! (n mod 10)])"

declare digitsOf.simps [simp del]

text \<open>
  \<^verbatim>\<open>x.toFixed(3)\<close> for a number of magnitude below \<open>10\<^sup>2\<^sup>1\<close>: the nearest multiple of one
  thousandth (the larger one at a tie), written with at least one digit before the point and
  exactly three after it, behind a minus sign when \<open>x\<close> is negative.
\<close>

definition toFixed3 :: "real \<Rightarrow> string" where
  "toFixed3 x =
     (let n = nat \<lfloor>\<bar>x\<bar> * 1000 + 1 / 2\<rfloor>;
          m = digitsOf n;
          m' = (if length m \<le> 3 then replicate (4 - length m) (CHR ''0'') @ m else m);
          k = length m'
      in (if x < 0 then ''-'' else []) @ take (k - 3) m' @ ''.'' @ drop (k - 3) m')"

section \<open>Multi-term ranking\<close>

text \<open>
  The loop \<^verbatim>\<open>for (let i = 1; i < termResults.length; i++)\<close> over the pools of the other terms;
  the state is \<open>(matchCount, totalScore, hierarchyBonus)\<close>. The array \<open>relatedMatches\<close> is
  filled by the loop and never read, so it is left out.
\<close>

fun scanPools :: "Env \<Rightarrow> SearchResult \<Rightarrow> SearchResult list list \<Rightarrow> nat \<times> real \<times> real
    \<Rightarrow> nat \<times> real \<times> real" where
  "scanPools env firstResult [] st = st"
| "scanPools env firstResult (otherTermMatches # rest) (matchCount, totalScore, hierarchyBonus) =
     (case find (\<lambda>r. areRelated env firstResult r) otherTermMatches of
        Some relatedMatch \<Rightarrow>
          scanPools env firstResult rest (matchCount + 1, totalScore + score relatedMatch, 3 / 2)
      | None \<Rightarrow> scanPools env firstResult rest (matchCount, totalScore, hierarchyBonus))"

record CombinedResult = SearchResult +
  matchCount :: nat
  hierarchyBonus :: real
  combinedScore :: real

text \<open>A property value that the code may fill with a number or with a string.\<close>

datatype JsValue = JsNumber real | JsString string

record MatchInfo =
  matchedTerms :: nat
  totalTerms :: nat
  confidence :: JsValue

record RankedResult =
  rr_type :: UnitType
  rr_id :: string
  rr_name :: string
  rr_score :: real
  rr_matchedTerm :: "string option"
  rr_names :: Hierarchy
  matchInfo :: MatchInfo

text \<open>The body of \<^verbatim>\<open>termResults[0].matches.forEach\<close> for one result of the first term.\<close>

definition combineSeed :: "Env \<Rightarrow> nat \<Rightarrow> SearchResult list list \<Rightarrow> SearchResult \<Rightarrow> CombinedResult" where
  "combineSeed env n others firstResult =
     (case scanPools env firstResult others (1, score firstResult, 1) of
        (count, totalScore, bonus) \<Rightarrow>
          (let avgScore = totalScore / real n;
               combined = avgScore * bonus * (real count / real n)
           in \<lparr>r_type = r_type firstResult, r_id = r_id firstResult, r_name = r_name firstResult,
               score = score firstResult, matchedTerm = matchedTerm firstResult,
               names = names firstResult,
               matchCount = count, hierarchyBonus = bonus, combinedScore = combined\<rparr>))"

text \<open>\<open>termResults\<close> pairs each term with its matches; the seeds are the matches of the first.\<close>

definition combinedResultsOf :: "Env \<Rightarrow> nat \<Rightarrow> (string \<times> SearchResult list) \<Rightarrow>
    (string \<times> SearchResult list) list \<Rightarrow> CombinedResult list" where
  "combinedResultsOf env n first others = map (combineSeed env n (map snd others)) (snd first)"

definition cmpScore :: "SearchResult \<Rightarrow> SearchResult \<Rightarrow> real" where
  "cmpScore a b = score b - score a"

definition cmpCombined :: "CombinedResult \<Rightarrow> CombinedResult \<Rightarrow> real" where
  "cmpCombined a b =
     (if matchCount a \<noteq> matchCount b then real (matchCount b) - real (matchCount a)
      else combinedScore b - combinedScore a)"

text \<open>
  The final \<^verbatim>\<open>map\<close>: \<open>matchCount\<close>, \<open>hierarchyBonus\<close>, \<open>combinedScore\<close> and \<open>matchedTerm\<close>
  are taken out of the object (so the result has no \<open>matchedTerm\<close> key) and \<open>matchInfo\<close>
  is added; \<open>confidence\<close> is the string that \<^verbatim>\<open>toFixed(3)\<close> returns.
\<close>

definition toRanked :: "nat \<Rightarrow> CombinedResult \<Rightarrow> RankedResult" where
  "toRanked n c =
     \<lparr>rr_type = r_type c, rr_id = r_id c, rr_name = r_name c, rr_score = score c,
      rr_matchedTerm = None, rr_names = names c,
      matchInfo = \<lparr>matchedTerms = matchCount c, totalTerms = n,
                   confidence = JsString (toFixed3 (combinedScore c))\<rparr>\<rparr>"

section \<open>The two search entry points\<close>

datatype JsError = TypeError

datatype SearchOutput = Candidates "SearchResult list" | Ranked "RankedResult list"

text \<open>\<^verbatim>\<open>terms.map((term) => ({ term, matches: fuzzySearchSingleTerm(term, 30) }))\<close>.\<close>

definition termResultsOf :: "Env \<Rightarrow> string list \<Rightarrow> (string \<times> SearchResult list) list" where
  "termResultsOf env terms = map (\<lambda>term. (term, fuzzySearchSingleTerm env term 30)) terms"

text \<open>
  \<^verbatim>\<open>termResults[0].matches\<close> reads a property of \<^verbatim>\<open>undefined\<close> when there is no term,
  which throws a \<^verbatim>\<open>TypeError\<close>.
\<close>

definition searchAdministrativeUnits :: "Env \<Rightarrow> string \<Rightarrow> int \<Rightarrow> JsError + SearchOutput" where
  "searchAdministrativeUnits env query maxResults =
     (let terms = parseQuery query
      in if length terms = 1 then
           Inr (Candidates
                  (sliceTo maxResults
                     (jsSort cmpScore (fuzzySearchSingleTerm env (terms ! 0) maxResults))))
         else
           (let termResults = termResultsOf env terms
            in case termResults of
                 [] \<Rightarrow> Inl TypeError
               | first # others \<Rightarrow>
                   Inr (Ranked
                          (map (toRanked (length terms))
                             (sliceTo maxResults
                                (jsSort cmpCombined
                                   (combinedResultsOf env (length terms) first others)))))))"

text \<open>\<^verbatim>\<open>maxResults: number = 100\<close>.\<close>

definition searchAdministrativeUnitsDefault :: "Env \<Rightarrow> string \<Rightarrow> JsError + SearchOutput" where
  "searchAdministrativeUnitsDefault env query = searchAdministrativeUnits env query 100"

text \<open>\<^verbatim>\<open>toLowerCase()\<close> on code units below 256: the upper-case letters move up by 32.\<close>

definition lowerChar :: "char \<Rightarrow> char" where
  "lowerChar c =
     (let n = (of_char c :: nat)
      in if (65 \<le> n \<and> n \<le> 90) \<or> (192 \<le> n \<and> n \<le> 222 \<and> n \<noteq> 215) then char_of (n + 32) else c)"

definition toLowerCase :: "string \<Rightarrow> string" where
  "toLowerCase s = map lowerChar s"

fun includesStr :: "string \<Rightarrow> string \<Rightarrow> bool" where
  "includesStr [] sub = (sub = [])"
| "includesStr (c # cs) sub = (take (length sub) (c # cs) = sub \<or> includesStr cs sub)"

record ExactResult =
  e_type :: UnitType
  e_id :: string
  e_name :: string
  e_names :: Hierarchy

definition exactSearchAdministrativeUnits :: "Env \<Rightarrow> string \<Rightarrow> ExactResult list" where
  "exactSearchAdministrativeUnits env query =
     (let lowerQuery = trim (toLowerCase query)
      in if lowerQuery = [] then []
         else
           map (\<lambda>d. \<lparr>e_type = TDistrict, e_id = d_id d, e_name = d_name d,
                     e_names = getDistrictHierarchy env (d_id d)\<rparr>)
               (filter (\<lambda>d. includesStr (toLowerCase (d_name d)) lowerQuery) (districts env))
           @ map (\<lambda>c. \<lparr>e_type = TCounty, e_id = c_id c, e_name = c_name c,
                       e_names = getCountyHierarchy env (c_id c)\<rparr>)
               (filter (\<lambda>c. includesStr (toLowerCase (c_name c)) lowerQuery) (counties env))
           @ map (\<lambda>s. \<lparr>e_type = TSubCounty, e_id = s_id s, e_name = s_name s,
                       e_names = getSubCountyHierarchy env (s_id s)\<rparr>)
               (filter (\<lambda>s. includesStr (toLowerCase (s_name s)) lowerQuery) (subCounties env))
           @ map (\<lambda>p. \<lparr>e_type = TParish, e_id = p_id p, e_name = p_name p,
                       e_names = getParishHierarchy env (p_id p)\<rparr>)
               (filter (\<lambda>p. includesStr (toLowerCase (p_name p)) lowerQuery) (parishes env))
           @ map (\<lambda>v. \<lparr>e_type = TVillage, e_id = v_id v, e_name = v_name v,
                       e_names = getVillageHierarchy env v\<rparr>)
               (filter (\<lambda>v. includesStr (toLowerCase (v_name v)) lowerQuery) (villages env)))"

section \<open>Vocabulary of the statements\<close>

text \<open>How many results a call returned, when it returned.\<close>

definition resultCount :: "JsError + SearchOutput \<Rightarrow> nat option" where
  "resultCount out =
     (case out of
        Inl e \<Rightarrow> None
      | Inr (Candidates rs) \<Rightarrow> Some (length rs)
      | Inr (Ranked rs) \<Rightarrow> Some (length rs))"

definition matchInfos :: "JsError + SearchOutput \<Rightarrow> MatchInfo list" where
  "matchInfos out = (case out of Inr (Ranked rs) \<Rightarrow> map matchInfo rs | _ \<Rightarrow> [])"

text \<open>The list \<open>combinedResults\<close> of a multi-term search, before it is sorted.\<close>

abbreviation seedsOf :: "Env \<Rightarrow> string list \<Rightarrow> CombinedResult list" where
  "seedsOf env terms \<equiv>
     combinedResultsOf env (length terms) (hd (termResultsOf env terms)) (tl (termResultsOf env terms))"

text \<open>More matched terms first; among equal counts, the higher combined score first.\<close>

definition byMatchCountThenScore :: "CombinedResult \<Rightarrow> CombinedResult \<Rightarrow> bool" where
  "byMatchCountThenScore a b =
     (matchCount b < matchCount a \<or>
      (matchCount a = matchCount b \<and> combinedScore b \<le> combinedScore a))"

text \<open>
  A returned result \<open>r\<close> is the candidate \<open>seed\<close> without its \<open>matchedTerm\<close>, plus the match
  information of the combined result \<open>c\<close>, the confidence written with three decimals.
\<close>

definition fromSeed :: "nat \<Rightarrow> CombinedResult \<Rightarrow> SearchResult \<Rightarrow> RankedResult \<Rightarrow> bool" where
  "fromSeed n c seed r =
     (rr_type r = r_type seed \<and> rr_id r = r_id seed \<and> rr_name r = r_name seed \<and>
      rr_score r = score seed \<and> rr_names r = names seed \<and> rr_matchedTerm r = None \<and>
      matchInfo r = \<lparr>matchedTerms = matchCount c, totalTerms = n,
                      confidence = JsString (toFixed3 (combinedScore c))\<rparr>)"

text \<open>
  The scoring of a seed in closed form, with the relatedness that the code computes: one plus
  the number of further pools that hold a candidate related to the seed; the seed's score
  plus the score of the first related candidate of each such pool; the bonus 1.5 when there
  is such a pool, and 1 otherwise.
\<close>

definition relatedHit :: "Env \<Rightarrow> SearchResult \<Rightarrow> SearchResult list \<Rightarrow> SearchResult option" where
  "relatedHit env seed pool = find (\<lambda>r. areRelated env seed r) pool"

definition seedMatchCount :: "Env \<Rightarrow> SearchResult \<Rightarrow> SearchResult list list \<Rightarrow> nat" where
  "seedMatchCount env seed pools =
     1 + length (filter (\<lambda>pool. relatedHit env seed pool \<noteq> None) pools)"

definition seedTotalScore :: "Env \<Rightarrow> SearchResult \<Rightarrow> SearchResult list list \<Rightarrow> real" where
  "seedTotalScore env seed pools =
     score seed +
     sum_list (map (\<lambda>pool. case relatedHit env seed pool of
                              Some r \<Rightarrow> score r | None \<Rightarrow> 0) pools)"

definition seedHierarchyBonus :: "Env \<Rightarrow> SearchResult \<Rightarrow> SearchResult list list \<Rightarrow> real" where
  "seedHierarchyBonus env seed pools =
     (if list_ex (\<lambda>pool. relatedHit env seed pool \<noteq> None) pools then 3 / 2 else 1)"

definition seedCombinedScore :: "Env \<Rightarrow> nat \<Rightarrow> SearchResult \<Rightarrow> SearchResult list list \<Rightarrow> real" where
  "seedCombinedScore env n seed pools =
     (seedTotalScore env seed pools / real n) * seedHierarchyBonus env seed pools *
     (real (seedMatchCount env seed pools) / real n)"

definition scoredSeed :: "Env \<Rightarrow> nat \<Rightarrow> SearchResult list list \<Rightarrow> SearchResult \<Rightarrow> CombinedResult" where
  "scoredSeed env n pools seed =
     \<lparr>r_type = r_type seed, r_id = r_id seed, r_name = r_name seed, score = score seed,
      matchedTerm = matchedTerm seed, names = names seed,
      matchCount = seedMatchCount env seed pools,
      hierarchyBonus = seedHierarchyBonus env seed pools,
      combinedScore = seedCombinedScore env n seed pools\<rparr>"

text \<open>Both chains carry the same identifier at a level, and it is not the empty string.\<close>

definition sharesNonEmpty :: "string option \<Rightarrow> string option \<Rightarrow> bool" where
  "sharesNonEmpty x y = (case x of None \<Rightarrow> False | Some i \<Rightarrow> i \<noteq> [] \<and> y = Some i)"

text \<open>The identifier is a row of the collection of its level.\<close>

definition knownUnit :: "Env \<Rightarrow> string \<Rightarrow> string \<Rightarrow> bool" where
  "knownUnit env type ident =
     (if type = ''district'' then districtMap env ident \<noteq> None
      else if type = ''county'' then countyMap env ident \<noteq> None
      else if type = ''subCounty'' then subCountyMap env ident \<noteq> None
      else if type = ''parish'' then parishMap env ident \<noteq> None
      else if type = ''village'' then find (\<lambda>v. v_id v = ident) (villages env) \<noteq> None
      else False)"

definition ownLevelId :: "string \<Rightarrow> HierarchyChain \<Rightarrow> string option" where
  "ownLevelId type c =
     (if type = ''district'' then districtId c
      else if type = ''county'' then countyId c
      else if type = ''subCounty'' then subCountyId c
      else if type = ''parish'' then parishId c
      else if type = ''village'' then villageId c
      else None)"

text \<open>Every level above the unit's own level carries an identifier.\<close>

definition ancestorsPresent :: "string \<Rightarrow> HierarchyChain \<Rightarrow> bool" where
  "ancestorsPresent type c =
     (if type = ''district'' then True
      else if type = ''county'' then districtId c \<noteq> None
      else if type = ''subCounty'' then districtId c \<noteq> None \<and> countyId c \<noteq> None
      else if type = ''parish'' then
        districtId c \<noteq> None \<and> countyId c \<noteq> None \<and> subCountyId c \<noteq> None
      else if type = ''village'' then
        districtId c \<noteq> None \<and> countyId c \<noteq> None \<and> subCountyId c \<noteq> None \<and>
        parishId c \<noteq> None
      else False)"

text \<open>The parent reference of an identifier, when the identifier resolves at its level.\<close>

definition countyParent :: "Env \<Rightarrow> string \<Rightarrow> string option" where
  "countyParent env i = map_option c_district (countyMap env i)"

definition subCountyParent :: "Env \<Rightarrow> string \<Rightarrow> string option" where
  "subCountyParent env i = map_option s_county (subCountyMap env i)"

definition parishParent :: "Env \<Rightarrow> string \<Rightarrow> string option" where
  "parishParent env i = map_option p_subcounty (parishMap env i)"

definition villageParent :: "Env \<Rightarrow> string \<Rightarrow> string option" where
  "villageParent env i = map_option v_parish (find (\<lambda>v. v_id v = i) (villages env))"

text \<open>Well-formed reference data: every parent reference resolves in the level above.\<close>

definition wellFormed :: "Env \<Rightarrow> bool" where
  "wellFormed env =
     (list_all (\<lambda>c. districtMap env (c_district c) \<noteq> None) (counties env) \<and>
      list_all (\<lambda>s. countyMap env (s_county s) \<noteq> None) (subCounties env) \<and>
      list_all (\<lambda>p. subCountyMap env (p_subcounty p) \<noteq> None) (parishes env) \<and>
      list_all (\<lambda>v. parishMap env (v_parish v) \<noteq> None) (villages env))"

section \<open>The specification's wording\<close>

text \<open>
  Section 4.5 of the specification: two chains share a non-null identifier at the district,
  county or sub-county level.
\<close>

definition specShare :: "string option \<Rightarrow> string option \<Rightarrow> bool" where
  "specShare x y = (x \<noteq> None \<and> x = y)"

definition specRelated :: "HierarchyChain \<Rightarrow> HierarchyChain \<Rightarrow> bool" where
  "specRelated c1 c2 =
     (specShare (districtId c1) (districtId c2) \<or>
      specShare (countyId c1) (countyId c2) \<or>
      specShare (subCountyId c1) (subCountyId c2))"

text \<open>
  Section 4.6 of the specification, steps 1 to 3: a seed starts with one matched term, its own
  similarity and the bonus 1; each further pool contributes its first candidate related to
  the seed in the sense of section 4.5, if it has one; the bonus is 1.5 as soon as one pool
  contributed.
\<close>

definition specRelatedResults :: "Env \<Rightarrow> SearchResult \<Rightarrow> SearchResult \<Rightarrow> bool" where
  "specRelatedResults env a b =
     specRelated (getHierarchyChain env (typeName (r_type a)) (r_id a))
                 (getHierarchyChain env (typeName (r_type b)) (r_id b))"

definition specRelatedHit :: "Env \<Rightarrow> SearchResult \<Rightarrow> SearchResult list \<Rightarrow> SearchResult option" where
  "specRelatedHit env seed pool = find (\<lambda>r. specRelatedResults env seed r) pool"

definition specMatchCount :: "Env \<Rightarrow> SearchResult \<Rightarrow> SearchResult list list \<Rightarrow> nat" where
  "specMatchCount env seed pools =
     1 + length (filter (\<lambda>pool. specRelatedHit env seed pool \<noteq> None) pools)"

definition specTotalScore :: "Env \<Rightarrow> SearchResult \<Rightarrow> SearchResult list list \<Rightarrow> real" where
  "specTotalScore env seed pools =
     score seed +
     sum_list (map (\<lambda>pool. case specRelatedHit env seed pool of
                              Some r \<Rightarrow> score r | None \<Rightarrow> 0) pools)"

definition specHierarchyBonus :: "Env \<Rightarrow> SearchResult \<Rightarrow> SearchResult list list \<Rightarrow> real" where
  "specHierarchyBonus env seed pools =
     (if list_ex (\<lambda>pool. specRelatedHit env seed pool \<noteq> None) pools then 3 / 2 else 1)"

definition specCombinedScore :: "Env \<Rightarrow> nat \<Rightarrow> SearchResult \<Rightarrow> SearchResult list list \<Rightarrow> real" where
  "specCombinedScore env n seed pools =
     (specTotalScore env seed pools / real n) * specHierarchyBonus env seed pools *
     (real (specMatchCount env seed pools) / real n)"

definition specSeed :: "Env \<Rightarrow> nat \<Rightarrow> SearchResult list list \<Rightarrow> SearchResult \<Rightarrow> CombinedResult" where
  "specSeed env n pools seed =
     \<lparr>r_type = r_type seed, r_id = r_id seed, r_name = r_name seed, score = score seed,
      matchedTerm = matchedTerm seed, names = names seed,
      matchCount = specMatchCount env seed pools,
      hierarchyBonus = specHierarchyBonus env seed pools,
      combinedScore = specCombinedScore env n seed pools\<rparr>"

text \<open>
  Section 4.6 of the specification, step 5: the match information with the combined score
  itself as confidence.
\<close>

definition specMatchInfo :: "nat \<Rightarrow> CombinedResult \<Rightarrow> MatchInfo" where
  "specMatchInfo n c =
     \<lparr>matchedTerms = matchCount c, totalTerms = n, confidence = JsNumber (combinedScore c)\<rparr>"

text \<open>
  Modelled from the spec: the fuzzy indexes are built by the external matching library, whose
  code is not part of the source. Section 4.2 of the specification says that an index returns
  the top K names of its level, so a search with a limit that is not negative returns at most
  that many hits.
\<close>

definition fuseHonoursLimit :: "Env \<Rightarrow> bool" where
  "fuseHonoursLimit env =
     (\<forall>term limit. 0 \<le> limit \<longrightarrow>
        length (districtFuse env term limit) \<le> nat limit \<and>
        length (countyFuse env term limit) \<le> nat limit \<and>
        length (subCountyFuse env term limit) \<le> nat limit \<and>
        length (parishFuse env term limit) \<le> nat limit \<and>
        length (villageFuse env term limit) \<le> nat limit)"

text \<open>
  Modelled from the spec: the dissimilarity measure of the external matching library is not
  part of the source. The specification calls it normalised: it lies between 0 and 1, and 0
  means identical strings.
\<close>

definition normalised :: "(string \<Rightarrow> string \<Rightarrow> real) \<Rightarrow> bool" where
  "normalised dissimilarity =
     ((\<forall>a b. 0 \<le> dissimilarity a b \<and> dissimilarity a b \<le> 1) \<and>
      (\<forall>a. dissimilarity a a = 0))"

definition cmpFuseScore :: "'a FuseResult \<Rightarrow> 'a FuseResult \<Rightarrow> real" where
  "cmpFuseScore a b = fuseScore a - fuseScore b"

text \<open>
  Modelled from the spec: the per-level fuzzy index of the external matching library, which
  is not part of the source. Section 4.2 of the specification: a term shorter than two
  characters matches nothing; a name matches when its dissimilarity to the term, compared
  case-insensitively, is below 0.4; the hits are ranked by match quality, equal ones in the
  order of the collection, and the top K are returned.
\<close>

definition specFuzzyIndex ::
    "(string \<Rightarrow> string \<Rightarrow> real) \<Rightarrow> ('a \<Rightarrow> string) \<Rightarrow> 'a list \<Rightarrow> string \<Rightarrow> int
      \<Rightarrow> 'a FuseResult list" where
  "specFuzzyIndex dissimilarity nameOf rows term limit =
     (if length term < 2 then []
      else take (nat limit)
             (jsSort cmpFuseScore
                (map (\<lambda>x. \<lparr>item = x,
                            fuseScore = dissimilarity (toLowerCase term) (toLowerCase (nameOf x))\<rparr>)
                   (filter (\<lambda>x. dissimilarity (toLowerCase term) (toLowerCase (nameOf x)) < 4 / 10)
                      rows))))"

text \<open>
  Modelled from the spec: the module-level constants when the five indexes, which the source
  takes from the external matching library, are the indexes of section 4.2 over the five
  collections.
\<close>

definition specEnv :: "(string \<Rightarrow> string \<Rightarrow> real) \<Rightarrow> District list \<Rightarrow> County list \<Rightarrow>
    SubCounty list \<Rightarrow> Parish list \<Rightarrow> Village list \<Rightarrow> Env" where
  "specEnv dissimilarity ds cs ss ps vs =
     \<lparr>districts = ds, counties = cs, subCounties = ss, parishes = ps, villages = vs,
      districtFuse = specFuzzyIndex dissimilarity d_name ds,
      countyFuse = specFuzzyIndex dissimilarity c_name cs,
      subCountyFuse = specFuzzyIndex dissimilarity s_name ss,
      parishFuse = specFuzzyIndex dissimilarity p_name ps,
      villageFuse = specFuzzyIndex dissimilarity v_name vs\<rparr>"

section \<open>A small reference data set\<close>

text \<open>
  Two districts, two counties, one sub-county, one parish and three villages; the villages
  \<open>V2\<close> and \<open>V3\<close> name a parish \<open>P9\<close> that is not in the parish collection. The indexes
  know the terms \<open>Nakawa\<close>, \<open>Kampala\<close> and \<open>Kyanja\<close>, and cut their hits at a limit
  that is not negative.
\<close>

definition exLimit :: "int \<Rightarrow> 'a list \<Rightarrow> 'a list" where
  "exLimit limit xs = (if limit > - 1 then take (nat limit) xs else xs)"

definition exKampala :: District where
  "exKampala = \<lparr>d_id = ''D1'', d_name = ''Kampala''\<rparr>"

definition exNakawa :: County where
  "exNakawa = \<lparr>c_id = ''C1'', c_name = ''Nakawa'', c_district = ''D1''\<rparr>"

definition exNakawuka :: County where
  "exNakawuka = \<lparr>c_id = ''C2'', c_name = ''Nakawuka'', c_district = ''D2''\<rparr>"

definition exNakawaDivision :: SubCounty where
  "exNakawaDivision = \<lparr>s_id = ''S1'', s_name = ''Nakawa Division'', s_county = ''C1''\<rparr>"

definition exBukoto :: Parish where
  "exBukoto = \<lparr>p_id = ''P1'', p_name = ''Bukoto'', p_subcounty = ''S1''\<rparr>"

definition exKyanja :: Village where
  "exKyanja = \<lparr>v_id = ''V2'', v_name = ''Kyanja'', v_parish = ''P9''\<rparr>"

definition exKyanjaB :: Village where
  "exKyanjaB = \<lparr>v_id = ''V3'', v_name = ''Kyanja B'', v_parish = ''P9''\<rparr>"

definition exEnv :: Env where
  "exEnv =
     \<lparr>districts = [exKampala, \<lparr>d_id = ''D2'', d_name = ''Wakiso''\<rparr>],
      counties = [exNakawa, exNakawuka],
      subCounties = [exNakawaDivision],
      parishes = [exBukoto],
      villages = [\<lparr>v_id = ''V1'', v_name = ''Kisasi'', v_parish = ''P1''\<rparr>, exKyanja, exKyanjaB],
      districtFuse = (\<lambda>term limit. exLimit limit
         (if term = ''Kampala'' then [\<lparr>item = exKampala, fuseScore = 0\<rparr>] else [])),
      countyFuse = (\<lambda>term limit. exLimit limit
         (if term = ''Nakawa'' then [\<lparr>item = exNakawa, fuseScore = 0\<rparr>,
                                      \<lparr>item = exNakawuka, fuseScore = 1 / 4\<rparr>] else [])),
      subCountyFuse = (\<lambda>term limit. exLimit limit
         (if term = ''Nakawa'' then [\<lparr>item = exNakawaDivision, fuseScore = 1 / 4\<rparr>] else [])),
      parishFuse = (\<lambda>term limit. []),
      villageFuse = (\<lambda>term limit. exLimit limit
         (if term = ''Kyanja'' then [\<lparr>item = exKyanjaB, fuseScore = 1 / 8\<rparr>,
                                      \<lparr>item = exKyanja, fuseScore = 0\<rparr>] else []))\<rparr>"

definition exVillageResult :: "Village \<Rightarrow> real \<Rightarrow> SearchResult" where
  "exVillageResult v sc =
     \<lparr>r_type = TVillage, r_id = v_id v, r_name = v_name v, score = sc,
      matchedTerm = Some ''Kyanja'', names = getVillageHierarchy exEnv v\<rparr>"

text \<open>The same data without the two villages of the unknown parish.\<close>

definition exEnvWF :: Env where
  "exEnvWF = exEnv\<lparr>villages := [\<lparr>v_id = ''V1'', v_name = ''Kisasi'', v_parish = ''P1''\<rparr>]\<rparr>"

text \<open>A coarse normalised dissimilarity, and the indexes of section 4.2 over the data.\<close>

definition exDissimilarity :: "string \<Rightarrow> string \<Rightarrow> real" where
  "exDissimilarity a b = (if a = b then 0 else if take 3 a = take 3 b then 1 / 4 else 1)"

definition exSpecEnv :: Env where
  "exSpecEnv = specEnv exDissimilarity (districts exEnv) (counties exEnv) (subCounties exEnv)
     (parishes exEnv) (villages exEnv)"

section \<open>Arrays: sorting and slicing\<close>

lemma set_insertSorted: "set (insertSorted cmp x ys) = insert x (set ys)"
  by (induction ys) auto

lemma set_jsSort: "set (jsSort cmp xs) = set xs"
  by (induction xs) (auto simp: jsSort_def set_insertSorted)

lemma length_insertSorted: "length (insertSorted cmp x ys) = Suc (length ys)"
  by (induction ys) auto

lemma length_jsSort: "length (jsSort cmp xs) = length xs"
  by (induction xs) (auto simp: jsSort_def length_insertSorted)

lemma sorted_insertSorted:
  assumes total: "\<And>a b. cmp a b \<le> 0 \<or> cmp b a \<le> 0"
    and trans: "\<And>a b c. cmp a b \<le> 0 \<Longrightarrow> cmp b c \<le> 0 \<Longrightarrow> cmp a c \<le> 0"
    and srt: "sorted_wrt (\<lambda>a b. cmp a b \<le> 0) ys"
  shows "sorted_wrt (\<lambda>a b. cmp a b \<le> 0) (insertSorted cmp x ys)"
  using srt
proof (induction ys)
  case Nil
  then show ?case by simp
next
  case (Cons y ys)
  show ?case
  proof (cases "cmp x y \<le> 0")
    case True
    then have "\<forall>z\<in>set ys. cmp x z \<le> 0"
      using Cons.prems trans by auto
    then show ?thesis using True Cons.prems by simp
  next
    case False
    then have "cmp y x \<le> 0" using total [of x y] by simp
    then show ?thesis using False Cons by (auto simp: set_insertSorted)
  qed
qed

lemma sorted_jsSort:
  assumes total: "\<And>a b. cmp a b \<le> 0 \<or> cmp b a \<le> 0"
    and trans: "\<And>a b c. cmp a b \<le> 0 \<Longrightarrow> cmp b c \<le> 0 \<Longrightarrow> cmp a c \<le> 0"
  shows "sorted_wrt (\<lambda>a b. cmp a b \<le> 0) (jsSort cmp xs)"
proof (induction xs)
  case Nil
  then show ?case by (simp add: jsSort_def)
next
  case (Cons x xs)
  have "jsSort cmp (x # xs) = insertSorted cmp x (jsSort cmp xs)"
    by (simp add: jsSort_def)
  then show ?case
    using sorted_insertSorted [of cmp "jsSort cmp xs" x, OF total trans Cons] by simp
qed

lemma sliceTo_take: "\<exists>n. sliceTo e xs = take n xs"
  by (auto simp: sliceTo_def Let_def)

lemma sorted_wrt_sliceTo: "sorted_wrt R xs \<Longrightarrow> sorted_wrt R (sliceTo e xs)"
  using sliceTo_take [of e xs] by (auto simp: sorted_wrt_take)

lemma length_sliceTo_le: "length (sliceTo e xs) \<le> length xs"
  by (simp add: sliceTo_def Let_def)

lemma length_sliceTo_limit: "0 \<le> e \<Longrightarrow> length (sliceTo e xs) \<le> nat e"
  by (simp add: sliceTo_def Let_def)

lemma sliceTo_zero: "sliceTo 0 xs = []"
  by (simp add: sliceTo_def)

lemma set_sliceTo: "set (sliceTo e xs) \<subseteq> set xs"
  using sliceTo_take [of e xs] by (auto dest: in_set_takeD)

lemma cmpScore_le: "(cmpScore a b \<le> 0) = (score b \<le> score a)"
  by (simp add: cmpScore_def)

lemma cmpCombined_le: "(cmpCombined a b \<le> 0) = byMatchCountThenScore a b"
  by (auto simp: cmpCombined_def byMatchCountThenScore_def)

lemma sorted_cmpScore: "sorted_wrt (\<lambda>a b. score b \<le> score a) (jsSort cmpScore xs)"
proof -
  have "sorted_wrt (\<lambda>a b. cmpScore a b \<le> 0) (jsSort cmpScore xs)"
  proof (rule sorted_jsSort)
    show "cmpScore a b \<le> 0 \<or> cmpScore b a \<le> 0" for a b
      by (auto simp: cmpScore_def)
    show "cmpScore a b \<le> 0 \<Longrightarrow> cmpScore b c \<le> 0 \<Longrightarrow> cmpScore a c \<le> 0" for a b c
      by (simp add: cmpScore_def)
  qed
  then show ?thesis unfolding cmpScore_le .
qed

lemma sorted_cmpCombined: "sorted_wrt byMatchCountThenScore (jsSort cmpCombined xs)"
proof -
  have "sorted_wrt (\<lambda>a b. cmpCombined a b \<le> 0) (jsSort cmpCombined xs)"
  proof (rule sorted_jsSort)
    show "cmpCombined a b \<le> 0 \<or> cmpCombined b a \<le> 0" for a b
      by (auto simp: cmpCombined_def)
    show "cmpCombined a b \<le> 0 \<Longrightarrow> cmpCombined b c \<le> 0 \<Longrightarrow> cmpCombined a c \<le> 0" for a b c
      unfolding cmpCombined_le byMatchCountThenScore_def by auto
  qed
  then show ?thesis unfolding cmpCombined_le by (simp add: byMatchCountThenScore_def[abs_def])
qed

section \<open>The two branches of the search\<close>

lemma search_single:
  "parseQuery query = [term] \<Longrightarrow>
   searchAdministrativeUnits env query maxResults =
     Inr (Candidates (sliceTo maxResults
            (jsSort cmpScore (fuzzySearchSingleTerm env term maxResults))))"
  by (simp add: searchAdministrativeUnits_def)

lemma search_multi:
  assumes "2 \<le> length (parseQuery query)"
  shows "searchAdministrativeUnits env query maxResults =
     Inr (Ranked (map (toRanked (length (parseQuery query)))
        (sliceTo maxResults (jsSort cmpCombined (seedsOf env (parseQuery query))))))"
proof -
  obtain t ts where p: "parseQuery query = t # ts"
    using assms by (cases "parseQuery query") auto
  have "length (parseQuery query) \<noteq> 1" using assms by simp
  then show ?thesis
    by (simp add: searchAdministrativeUnits_def p termResultsOf_def)
qed

lemma seedsOf_Cons:
  "seedsOf env (t # ts) =
     map (combineSeed env (Suc (length ts)) (map (\<lambda>term. fuzzySearchSingleTerm env term 30) ts))
       (fuzzySearchSingleTerm env t 30)"
  by (simp add: combinedResultsOf_def termResultsOf_def comp_def)

lemma fuzzy_matchedTerm:
  "r \<in> set (fuzzySearchSingleTerm env term k) \<Longrightarrow> matchedTerm r = Some term"
  by (auto simp: fuzzySearchSingleTerm_def)

section \<open>Blank queries\<close>

lemma splitSeparators_blank:
  "\<forall>c\<in>set q. isSpace c \<Longrightarrow> splitSeparators acc q = [rev acc @ q]"
proof (induction q arbitrary: acc)
  case Nil
  then show ?case by simp
next
  case (Cons c cs)
  have sp: "isSpace c" using Cons.prems by simp
  have d: "dropWhile isSpace cs = []" using Cons.prems by simp
  have "c \<noteq> CHR '',''" "c \<noteq> CHR '';''" using sp by (auto simp: isSpace_def)
  moreover have "matchWord l1 l2 (c # cs) = None" for l1 l2
    by (simp add: matchWord_def d)
  ultimately have "matchSeparator (c # cs) = None"
    by (simp add: matchSeparator_def)
  then show ?case using Cons by simp
qed

lemma trim_blank: "\<forall>c\<in>set q. isSpace c \<Longrightarrow> trim q = []"
proof -
  assume "\<forall>c\<in>set q. isSpace c"
  then have d: "dropWhile isSpace q = []" by simp
  show ?thesis unfolding trim_def d by simp
qed

lemma parseQuery_blank: "\<forall>c\<in>set q. isSpace c \<Longrightarrow> parseQuery q = []"
  by (simp add: parseQuery_def splitSeparators_blank trim_blank)

lemma lowerChar_space: "isSpace c \<Longrightarrow> lowerChar c = c"
  by (auto simp: isSpace_def lowerChar_def)

lemma toLowerCase_blank: "\<forall>c\<in>set q. isSpace c \<Longrightarrow> toLowerCase q = q"
  by (simp add: toLowerCase_def lowerChar_space map_idI)

text \<open>
  Claim C1. For a query that is empty or made of white space only, the exact search
  returns the empty sequence, but the fuzzy search does not return: it fails with a
  \<open>TypeError\<close>, because no term is left and the first entry of the per-term results is read.
\<close>

theorem blank_query_search_throws:
  assumes "\<forall>c\<in>set query. isSpace c"
  shows "searchAdministrativeUnits env query maxResults = Inl TypeError \<and>
         exactSearchAdministrativeUnits env query = []"
  using assms
  by (simp add: searchAdministrativeUnits_def exactSearchAdministrativeUnits_def
      termResultsOf_def parseQuery_blank toLowerCase_blank trim_blank)

theorem blank_query_search_throws_witness:
  "list_all isSpace ''  '' \<and>
   searchAdministrativeUnits exEnv ''  '' 100 = Inl TypeError \<and>
   exactSearchAdministrativeUnits exEnv ''  '' = [] \<and>
   searchAdministrativeUnits exEnv [] 100 = Inl TypeError \<and>
   exactSearchAdministrativeUnits exEnv [] = []"
proof -
  have h: "\<forall>c\<in>set ''  ''. isSpace c" by (simp add: isSpace_def)
  have h0: "\<forall>c\<in>set []. isSpace c" by simp
  show ?thesis
    using h blank_query_search_throws [OF h, of exEnv 100]
      blank_query_search_throws [OF h0, of exEnv 100]
    by (simp add: list_all_iff)
qed

section \<open>Relatedness\<close>

lemma truthy_shares: "(truthy x \<and> x = y) = sharesNonEmpty x y"
  by (auto simp: truthy_def sharesNonEmpty_def split: option.splits)

text \<open>
  Claim C2, as amended. Two candidates are related exactly when their chains carry the same
  non-empty identifier at the district, county, sub-county or parish level; the village
  level is never compared.
\<close>

theorem areRelated_iff_shared_upto_parish:
  "areRelated env a b =
     (sharesNonEmpty (districtId (getHierarchyChain env (typeName (r_type a)) (r_id a)))
                     (districtId (getHierarchyChain env (typeName (r_type b)) (r_id b))) \<or>
      sharesNonEmpty (countyId (getHierarchyChain env (typeName (r_type a)) (r_id a)))
                     (countyId (getHierarchyChain env (typeName (r_type b)) (r_id b))) \<or>
      sharesNonEmpty (subCountyId (getHierarchyChain env (typeName (r_type a)) (r_id a)))
                     (subCountyId (getHierarchyChain env (typeName (r_type b)) (r_id b))) \<or>
      sharesNonEmpty (parishId (getHierarchyChain env (typeName (r_type a)) (r_id a)))
                     (parishId (getHierarchyChain env (typeName (r_type b)) (r_id b))))"
  unfolding areRelated_def Let_def truthy_shares by (rule refl)

text \<open>
  The two villages of the unknown parish \<open>P9\<close> are related, through the parish level alone.
\<close>

theorem areRelated_iff_shared_upto_parish_witness:
  "areRelated exEnv (exVillageResult exKyanja 1) (exVillageResult exKyanjaB 1) \<and>
   sharesNonEmpty (parishId (getHierarchyChain exEnv ''village'' ''V2''))
                  (parishId (getHierarchyChain exEnv ''village'' ''V3''))"
proof -
  have "sharesNonEmpty (parishId (getHierarchyChain exEnv ''village'' ''V2''))
                       (parishId (getHierarchyChain exEnv ''village'' ''V3''))"
    by code_simp
  then show ?thesis
    using areRelated_iff_shared_upto_parish
      [of exEnv "exVillageResult exKyanja 1" "exVillageResult exKyanjaB 1"]
    by (simp add: exVillageResult_def exKyanja_def exKyanjaB_def)
qed

text \<open>
  Claim C2 as stated fails: the same two villages are related although their chains share
  no identifier at the district, county or sub-county level.
\<close>

theorem areRelated_parish_only_counterexample:
  "areRelated exEnv (exVillageResult exKyanja 1) (exVillageResult exKyanjaB 1) \<and>
   \<not> specRelated (getHierarchyChain exEnv ''village'' ''V2'')
                  (getHierarchyChain exEnv ''village'' ''V3'')"
  by code_simp

text \<open>Claim C8. Relatedness is symmetric.\<close>

theorem areRelated_symmetric: "areRelated env a b = areRelated env b a"
  by (auto simp: areRelated_def Let_def)

theorem areRelated_symmetric_witness:
  "areRelated exEnv (exVillageResult exKyanja 1) (exVillageResult exKyanjaB 1) \<and>
   areRelated exEnv (exVillageResult exKyanjaB 1) (exVillageResult exKyanja 1)"
proof -
  have "areRelated exEnv (exVillageResult exKyanja 1) (exVillageResult exKyanjaB 1)"
    by code_simp
  then show ?thesis
    using areRelated_symmetric [of exEnv "exVillageResult exKyanja 1" "exVillageResult exKyanjaB 1"]
    by simp
qed

section \<open>Single-term search\<close>

text \<open>
  Claim C4, as amended. For a query with exactly one term the results are sorted by
  similarity, highest first, for every limit, and for a limit that is not negative there are
  at most that many; for a query with at least one term the limit 0 gives no result.
\<close>

theorem single_term_sorted_and_limited:
  "(parseQuery query = [term] \<longrightarrow>
      searchAdministrativeUnits env query maxResults =
        Inr (Candidates (sliceTo maxResults
              (jsSort cmpScore (fuzzySearchSingleTerm env term maxResults)))) \<and>
      sorted_wrt (\<lambda>a b. score b \<le> score a)
        (sliceTo maxResults (jsSort cmpScore (fuzzySearchSingleTerm env term maxResults))) \<and>
      (0 \<le> maxResults \<longrightarrow>
         length (sliceTo maxResults (jsSort cmpScore (fuzzySearchSingleTerm env term maxResults)))
           \<le> nat maxResults)) \<and>
   (parseQuery query \<noteq> [] \<longrightarrow> resultCount (searchAdministrativeUnits env query 0) = Some 0)"
proof (intro conjI impI)
  assume p: "parseQuery query = [term]"
  show "searchAdministrativeUnits env query maxResults =
        Inr (Candidates (sliceTo maxResults
              (jsSort cmpScore (fuzzySearchSingleTerm env term maxResults))))"
    by (rule search_single [OF p])
  show "sorted_wrt (\<lambda>a b. score b \<le> score a)
        (sliceTo maxResults (jsSort cmpScore (fuzzySearchSingleTerm env term maxResults)))"
    by (rule sorted_wrt_sliceTo) (rule sorted_cmpScore)
next
  assume "0 \<le> maxResults"
  then show "length (sliceTo maxResults (jsSort cmpScore (fuzzySearchSingleTerm env term maxResults)))
           \<le> nat maxResults"
    by (rule length_sliceTo_limit)
next
  assume ne: "parseQuery query \<noteq> []"
  show "resultCount (searchAdministrativeUnits env query 0) = Some 0"
  proof (cases "length (parseQuery query) = 1")
    case True
    then obtain t where "parseQuery query = [t]"
      by (cases "parseQuery query") auto
    then show ?thesis
      by (simp add: search_single resultCount_def sliceTo_zero)
  next
    case False
    then have "2 \<le> length (parseQuery query)"
      using ne by (cases "parseQuery query") (auto simp: Suc_le_eq)
    then show ?thesis
      by (simp add: search_multi resultCount_def sliceTo_zero)
  qed
qed

text \<open>
  The index returns the two villages for \<open>Kyanja\<close> with the weaker match first; the search
  puts the exact match first.
\<close>

theorem single_term_sorted_and_limited_witness:
  "parseQuery ''Kyanja'' = [''Kyanja''] \<and>
   map r_id (fuzzySearchSingleTerm exEnv ''Kyanja'' 5) = [''V3'', ''V2''] \<and>
   searchAdministrativeUnits exEnv ''Kyanja'' 5 =
     Inr (Candidates (sliceTo 5 (jsSort cmpScore (fuzzySearchSingleTerm exEnv ''Kyanja'' 5)))) \<and>
   map r_id (sliceTo 5 (jsSort cmpScore (fuzzySearchSingleTerm exEnv ''Kyanja'' 5)))
     = [''V2'', ''V3''] \<and>
   sorted_wrt (\<lambda>a b. score b \<le> score a)
     (sliceTo 5 (jsSort cmpScore (fuzzySearchSingleTerm exEnv ''Kyanja'' 5))) \<and>
   length (sliceTo 5 (jsSort cmpScore (fuzzySearchSingleTerm exEnv ''Kyanja'' 5))) \<le> nat 5 \<and>
   resultCount (searchAdministrativeUnits exEnv ''Kyanja'' 0) = Some 0"
proof -
  have p: "parseQuery ''Kyanja'' = [''Kyanja'']" by code_simp
  have a: "map r_id (fuzzySearchSingleTerm exEnv ''Kyanja'' 5) = [''V3'', ''V2'']" by code_simp
  have b: "map r_id (sliceTo 5 (jsSort cmpScore (fuzzySearchSingleTerm exEnv ''Kyanja'' 5)))
      = [''V2'', ''V3'']"
    by code_simp
  show ?thesis
    using p a b single_term_sorted_and_limited [of "''Kyanja''" "''Kyanja''" exEnv 5]
    by simp
qed

text \<open>
  Claim C4 as stated fails: with the limit \<open>-1\<close> the two-term query returns two of its three
  results, since the final slice only drops the last one.
\<close>

theorem negative_limit_counterexample:
  "(- 1 :: int) \<le> 0 \<and>
   resultCount (searchAdministrativeUnits exEnv ''Nakawa, Kampala'' (- 1)) = Some 2"
  by code_simp

section \<open>Multi-term search\<close>

lemma toRanked_matchedTerms: "matchedTerms (matchInfo (toRanked n c)) = matchCount c"
  by (simp add: toRanked_def)

text \<open>
  Claim C5. For a query with two or more terms the returned list is the sorted list of
  seeds, cut at the limit and mapped to its results: it is ordered by match count, highest
  first, then by combined score, highest first, so the matched-term counts of the results
  never increase along the list.
\<close>

theorem multi_term_sorted:
  assumes "2 \<le> length (parseQuery query)"
  shows "searchAdministrativeUnits env query maxResults =
           Inr (Ranked (map (toRanked (length (parseQuery query)))
             (sliceTo maxResults (jsSort cmpCombined (seedsOf env (parseQuery query)))))) \<and>
         sorted_wrt byMatchCountThenScore
           (sliceTo maxResults (jsSort cmpCombined (seedsOf env (parseQuery query)))) \<and>
         sorted_wrt (\<lambda>a b. matchedTerms (matchInfo b) \<le> matchedTerms (matchInfo a))
           (map (toRanked (length (parseQuery query)))
             (sliceTo maxResults (jsSort cmpCombined (seedsOf env (parseQuery query)))))"
proof -
  let ?cs = "sliceTo maxResults (jsSort cmpCombined (seedsOf env (parseQuery query)))"
  have s: "sorted_wrt byMatchCountThenScore ?cs"
    by (rule sorted_wrt_sliceTo) (rule sorted_cmpCombined)
  have "sorted_wrt (\<lambda>a b. matchCount b \<le> matchCount a) ?cs"
    by (rule sorted_wrt_mono_rel [OF _ s]) (auto simp: byMatchCountThenScore_def)
  then have "sorted_wrt (\<lambda>a b. matchedTerms (matchInfo b) \<le> matchedTerms (matchInfo a))
      (map (toRanked (length (parseQuery query))) ?cs)"
    by (simp add: sorted_wrt_map toRanked_matchedTerms)
  then show ?thesis
    using s search_multi [OF assms] by simp
qed

text \<open>
  The seeds of \<open>Nakawa, Kampala\<close> come with the match counts 2, 1, 2; sorting moves the
  seed with one matched term to the end.
\<close>

theorem multi_term_sorted_witness:
  "2 \<le> length (parseQuery ''Nakawa, Kampala'') \<and>
   map r_id (seedsOf exEnv (parseQuery ''Nakawa, Kampala'')) = [''C1'', ''C2'', ''S1''] \<and>
   map matchCount (seedsOf exEnv (parseQuery ''Nakawa, Kampala'')) = [2, 1, 2] \<and>
   map r_id (sliceTo 100 (jsSort cmpCombined (seedsOf exEnv (parseQuery ''Nakawa, Kampala''))))
     = [''C1'', ''S1'', ''C2''] \<and>
   sorted_wrt byMatchCountThenScore
     (sliceTo 100 (jsSort cmpCombined (seedsOf exEnv (parseQuery ''Nakawa, Kampala''))))"
proof -
  have h: "2 \<le> length (parseQuery ''Nakawa, Kampala'')" by code_simp
  have a: "map r_id (seedsOf exEnv (parseQuery ''Nakawa, Kampala'')) = [''C1'', ''C2'', ''S1'']"
    by code_simp
  have b: "map matchCount (seedsOf exEnv (parseQuery ''Nakawa, Kampala'')) = [2, 1, 2]"
    by code_simp
  have c: "map r_id (sliceTo 100 (jsSort cmpCombined (seedsOf exEnv (parseQuery ''Nakawa, Kampala''))))
     = [''C1'', ''S1'', ''C2'']"
    by code_simp
  show ?thesis
    using h a b c multi_term_sorted [OF h, of exEnv 100] by simp
qed

lemma scanPools_closed:
  "scanPools env seed pools (mc, ts, hb) =
     (mc + length (filter (\<lambda>pool. relatedHit env seed pool \<noteq> None) pools),
      ts + sum_list (map (\<lambda>pool. case relatedHit env seed pool of
                                   Some r \<Rightarrow> score r | None \<Rightarrow> 0) pools),
      if list_ex (\<lambda>pool. relatedHit env seed pool \<noteq> None) pools then 3 / 2 else hb)"
proof (induction pools arbitrary: mc ts hb)
  case Nil
  then show ?case by simp
next
  case (Cons pool pools)
  show ?case
  proof (cases "find (\<lambda>r. areRelated env seed r) pool")
    case None
    then show ?thesis using Cons by (simp add: relatedHit_def)
  next
    case (Some r)
    then show ?thesis using Cons by (simp add: relatedHit_def)
  qed
qed

lemma combineSeed_closed: "combineSeed env n pools seed = scoredSeed env n pools seed"
  by (simp add: combineSeed_def scanPools_closed scoredSeed_def seedCombinedScore_def
      seedMatchCount_def seedTotalScore_def seedHierarchyBonus_def Let_def)

text \<open>
  Claim C6, as amended. For a query with the terms \<open>t1, t2, ...\<close> the seeds are the
  candidates of the first term's pool, in its order. Each starts with the match count 1, its
  own similarity and the bonus 1; every further pool, in order, contributes its first
  candidate that the code's relatedness check relates to the seed (a shared non-empty
  identifier at the district, county, sub-county or parish level), raising the count by one,
  adding that candidate's similarity and setting the bonus to 1.5; the combined score is
  (total score / N) times the bonus times (match count / N). The search returns these seeds
  sorted, cut and mapped.
\<close>

theorem multi_term_scoring:
  assumes "parseQuery query = t1 # t2 # ts"
  shows "seedsOf env (parseQuery query) =
           map (scoredSeed env (length (parseQuery query))
                  (map (\<lambda>term. fuzzySearchSingleTerm env term 30) (t2 # ts)))
             (fuzzySearchSingleTerm env t1 30) \<and>
         searchAdministrativeUnits env query maxResults =
           Inr (Ranked (map (toRanked (length (parseQuery query)))
             (sliceTo maxResults (jsSort cmpCombined (seedsOf env (parseQuery query))))))"
proof -
  have "2 \<le> length (parseQuery query)" using assms by simp
  then have "searchAdministrativeUnits env query maxResults =
           Inr (Ranked (map (toRanked (length (parseQuery query)))
             (sliceTo maxResults (jsSort cmpCombined (seedsOf env (parseQuery query))))))"
    by (rule search_multi)
  moreover have "seedsOf env (parseQuery query) =
           map (scoredSeed env (length (parseQuery query))
                  (map (\<lambda>term. fuzzySearchSingleTerm env term 30) (t2 # ts)))
             (fuzzySearchSingleTerm env t1 30)"
    unfolding assms seedsOf_Cons by (simp add: combineSeed_closed)
  ultimately show ?thesis by simp
qed

text \<open>
  For \<open>Nakawa, Kampala\<close> the county and the sub-county of Nakawa find the district Kampala
  in the second pool; the county Nakawuka of another district finds nothing.
\<close>

theorem multi_term_scoring_witness:
  "parseQuery ''Nakawa, Kampala'' = [''Nakawa'', ''Kampala''] \<and>
   map r_id (fuzzySearchSingleTerm exEnv ''Nakawa'' 30) = [''C1'', ''C2'', ''S1''] \<and>
   map r_id (seedsOf exEnv (parseQuery ''Nakawa, Kampala'')) = [''C1'', ''C2'', ''S1''] \<and>
   map matchCount (seedsOf exEnv (parseQuery ''Nakawa, Kampala'')) = [2, 1, 2] \<and>
   map hierarchyBonus (seedsOf exEnv (parseQuery ''Nakawa, Kampala'')) = [3 / 2, 1, 3 / 2] \<and>
   map combinedScore (seedsOf exEnv (parseQuery ''Nakawa, Kampala'')) = [3 / 2, 3 / 16, 21 / 16]"
proof -
  have p: "parseQuery ''Nakawa, Kampala'' = [''Nakawa'', ''Kampala'']" by code_simp
  have a: "map r_id (fuzzySearchSingleTerm exEnv ''Nakawa'' 30) = [''C1'', ''C2'', ''S1'']"
    by code_simp
  have eq: "seedsOf exEnv (parseQuery ''Nakawa, Kampala'') =
      map (scoredSeed exEnv (length (parseQuery ''Nakawa, Kampala''))
             (map (\<lambda>term. fuzzySearchSingleTerm exEnv term 30) [''Kampala'']))
        (fuzzySearchSingleTerm exEnv ''Nakawa'' 30)"
    using multi_term_scoring [OF p, of exEnv 100] by (rule conjunct1)
  have b: "map matchCount (seedsOf exEnv (parseQuery ''Nakawa, Kampala'')) = [2, 1, 2]"
    unfolding eq by code_simp
  have c: "map hierarchyBonus (seedsOf exEnv (parseQuery ''Nakawa, Kampala'')) = [3 / 2, 1, 3 / 2]"
    unfolding eq by code_simp
  have d: "map combinedScore (seedsOf exEnv (parseQuery ''Nakawa, Kampala''))
      = [3 / 2, 3 / 16, 21 / 16]"
    unfolding eq by code_simp
  have e: "map r_id (seedsOf exEnv (parseQuery ''Nakawa, Kampala'')) = [''C1'', ''C2'', ''S1'']"
    unfolding eq by code_simp
  show ?thesis
    by (intro conjI p a b c d e)
qed

text \<open>
  Claim C6 as stated fails. For \<open>Kyanja, Kyanja\<close> both seeds are villages of the unknown
  parish \<open>P9\<close>: the code relates each to the first village of the second pool, through the
  parish level, and gives the match count 2 and the bonus 1.5, where relatedness in the sense
  of section 4.5 of the specification finds no related candidate and gives 1 and 1.
\<close>

theorem seed_scoring_parish_counterexample:
  "parseQuery ''Kyanja, Kyanja'' = [''Kyanja'', ''Kyanja''] \<and>
   map (\<lambda>c. (r_id c, matchCount c, hierarchyBonus c, combinedScore c))
       (seedsOf exEnv (parseQuery ''Kyanja, Kyanja'')) =
     [(''V3'', 2, 3 / 2, 21 / 16), (''V2'', 2, 3 / 2, 45 / 32)] \<and>
   map (\<lambda>c. (r_id c, matchCount c, hierarchyBonus c, combinedScore c))
       (map (specSeed exEnv 2 [fuzzySearchSingleTerm exEnv ''Kyanja'' 30])
          (fuzzySearchSingleTerm exEnv ''Kyanja'' 30)) =
     [(''V3'', 1, 1, 7 / 32), (''V2'', 1, 1, 1 / 4)] \<and>
   seedsOf exEnv (parseQuery ''Kyanja, Kyanja'') \<noteq>
     map (specSeed exEnv 2 [fuzzySearchSingleTerm exEnv ''Kyanja'' 30])
       (fuzzySearchSingleTerm exEnv ''Kyanja'' 30)"
proof -
  have p: "parseQuery ''Kyanja, Kyanja'' = [''Kyanja'', ''Kyanja'']" by code_simp
  have a: "map (\<lambda>c. (r_id c, matchCount c, hierarchyBonus c, combinedScore c))
       (seedsOf exEnv (parseQuery ''Kyanja, Kyanja'')) =
     [(''V3'', 2, 3 / 2, 21 / 16), (''V2'', 2, 3 / 2, 45 / 32)]"
    by code_simp
  have b: "map (\<lambda>c. (r_id c, matchCount c, hierarchyBonus c, combinedScore c))
       (map (specSeed exEnv 2 [fuzzySearchSingleTerm exEnv ''Kyanja'' 30])
          (fuzzySearchSingleTerm exEnv ''Kyanja'' 30)) =
     [(''V3'', 1, 1, 7 / 32), (''V2'', 1, 1, 1 / 4)]"
    by code_simp
  have c: "seedsOf exEnv (parseQuery ''Kyanja, Kyanja'') \<noteq>
     map (specSeed exEnv 2 [fuzzySearchSingleTerm exEnv ''Kyanja'' 30])
       (fuzzySearchSingleTerm exEnv ''Kyanja'' 30)"
  proof
    assume "seedsOf exEnv (parseQuery ''Kyanja, Kyanja'') =
      map (specSeed exEnv 2 [fuzzySearchSingleTerm exEnv ''Kyanja'' 30])
        (fuzzySearchSingleTerm exEnv ''Kyanja'' 30)"
    then have "[(''V3'', 2 :: nat, 3 / 2 :: real, 21 / 16 :: real), (''V2'', 2, 3 / 2, 45 / 32)] =
        [(''V3'', 1, 1, 7 / 32), (''V2'', 1, 1, 1 / 4)]"
      using a b by simp
    then show False by simp
  qed
  show ?thesis
    by (intro conjI p a b c)
qed

lemma fromSeed_toRanked:
  "fromSeed n (combineSeed env n pools seed) seed (toRanked n (combineSeed env n pools seed))"
  by (simp add: fromSeed_def toRanked_def combineSeed_def Let_def split: prod.splits)

text \<open>
  Claim C3, as amended. For a query with two or more terms the search returns, and every
  returned result is a candidate of the first term's pool without its \<open>matchedTerm\<close>, plus
  \<open>matchInfo\<close> with the seed's match count, the number of terms, and as confidence the
  string of the combined score written with three decimals.
\<close>

theorem multi_term_result_shape:
  assumes "2 \<le> length (parseQuery query)"
  shows "\<exists>rs. searchAdministrativeUnits env query maxResults = Inr (Ranked rs) \<and>
           (\<forall>r\<in>set rs.
              \<exists>seed\<in>set (fuzzySearchSingleTerm env (hd (parseQuery query)) 30).
                matchedTerm seed = Some (hd (parseQuery query)) \<and>
                fromSeed (length (parseQuery query))
                  (combineSeed env (length (parseQuery query))
                     (map (\<lambda>term. fuzzySearchSingleTerm env term 30) (tl (parseQuery query))) seed)
                  seed r)"
proof -
  obtain t ts where p: "parseQuery query = t # ts"
    using assms by (cases "parseQuery query") auto
  let ?n = "length (parseQuery query)"
  let ?pools = "map (\<lambda>term. fuzzySearchSingleTerm env term 30) ts"
  let ?cs = "sliceTo maxResults (jsSort cmpCombined (seedsOf env (parseQuery query)))"
  have s: "searchAdministrativeUnits env query maxResults = Inr (Ranked (map (toRanked ?n) ?cs))"
    by (rule search_multi [OF assms])
  have sub: "set ?cs \<subseteq> set (seedsOf env (parseQuery query))"
    using set_sliceTo [of maxResults "jsSort cmpCombined (seedsOf env (parseQuery query))"]
    by (simp add: set_jsSort)
  have seeds: "seedsOf env (parseQuery query) =
      map (combineSeed env ?n ?pools) (fuzzySearchSingleTerm env t 30)"
    unfolding p seedsOf_Cons by simp
  have "\<exists>seed\<in>set (fuzzySearchSingleTerm env t 30).
          matchedTerm seed = Some t \<and> fromSeed ?n (combineSeed env ?n ?pools seed) seed r"
    if "r \<in> set (map (toRanked ?n) ?cs)" for r
  proof -
    from that obtain c where c: "c \<in> set ?cs" and r: "r = toRanked ?n c" by auto
    from c sub have "c \<in> set (seedsOf env (parseQuery query))" by blast
    then obtain seed where sd: "seed \<in> set (fuzzySearchSingleTerm env t 30)"
      and cc: "c = combineSeed env ?n ?pools seed"
      unfolding seeds by auto
    show ?thesis
      using sd fuzzy_matchedTerm [OF sd] fromSeed_toRanked [of ?n env ?pools seed]
      unfolding r cc by blast
  qed
  then show ?thesis
    using s by (simp add: p)
qed

theorem multi_term_result_shape_witness:
  "2 \<le> length (parseQuery ''Nakawa, Kampala'') \<and>
   searchAdministrativeUnits exEnv ''Nakawa, Kampala'' 1 =
     Inr (Ranked [\<lparr>rr_type = TCounty, rr_id = ''C1'', rr_name = ''Nakawa'', rr_score = 1,
                    rr_matchedTerm = None,
                    rr_names = \<lparr>h_village = None, h_parish = None, h_subCounty = None,
                                 h_county = Some ''Nakawa'', h_district = Some ''Kampala''\<rparr>,
                    matchInfo = \<lparr>matchedTerms = 2, totalTerms = 2,
                                  confidence = JsString ''1.500''\<rparr>\<rparr>]) \<and>
   (\<exists>rs. searchAdministrativeUnits exEnv ''Nakawa, Kampala'' 1 = Inr (Ranked rs) \<and>
           (\<forall>r\<in>set rs.
              \<exists>seed\<in>set (fuzzySearchSingleTerm exEnv (hd (parseQuery ''Nakawa, Kampala'')) 30).
                matchedTerm seed = Some (hd (parseQuery ''Nakawa, Kampala'')) \<and>
                fromSeed (length (parseQuery ''Nakawa, Kampala''))
                  (combineSeed exEnv (length (parseQuery ''Nakawa, Kampala''))
                     (map (\<lambda>term. fuzzySearchSingleTerm exEnv term 30)
                        (tl (parseQuery ''Nakawa, Kampala''))) seed)
                  seed r))"
proof -
  have h: "2 \<le> length (parseQuery ''Nakawa, Kampala'')" by code_simp
  have v: "searchAdministrativeUnits exEnv ''Nakawa, Kampala'' 1 =
     Inr (Ranked [\<lparr>rr_type = TCounty, rr_id = ''C1'', rr_name = ''Nakawa'', rr_score = 1,
                    rr_matchedTerm = None,
                    rr_names = \<lparr>h_village = None, h_parish = None, h_subCounty = None,
                                 h_county = Some ''Nakawa'', h_district = Some ''Kampala''\<rparr>,
                    matchInfo = \<lparr>matchedTerms = 2, totalTerms = 2,
                                  confidence = JsString ''1.500''\<rparr>\<rparr>])"
    by code_simp
  show ?thesis
    by (intro conjI h v multi_term_result_shape [OF h])
qed

text \<open>
  Claim C3 as stated fails: the confidences of \<open>Nakawa, Kampala\<close> are the strings
  \<open>1.500\<close>, \<open>1.313\<close> and \<open>0.188\<close>, not the combined scores \<open>3/2\<close>, \<open>21/16\<close> and \<open>3/16\<close>.
\<close>

theorem confidence_is_string_counterexample:
  "matchInfos (searchAdministrativeUnits exEnv ''Nakawa, Kampala'' 100) =
     [\<lparr>matchedTerms = 2, totalTerms = 2, confidence = JsString ''1.500''\<rparr>,
      \<lparr>matchedTerms = 2, totalTerms = 2, confidence = JsString ''1.313''\<rparr>,
      \<lparr>matchedTerms = 1, totalTerms = 2, confidence = JsString ''0.188''\<rparr>] \<and>
   map (specMatchInfo 2)
       (sliceTo 100 (jsSort cmpCombined (seedsOf exEnv (parseQuery ''Nakawa, Kampala'')))) =
     [\<lparr>matchedTerms = 2, totalTerms = 2, confidence = JsNumber (3 / 2)\<rparr>,
      \<lparr>matchedTerms = 2, totalTerms = 2, confidence = JsNumber (21 / 16)\<rparr>,
      \<lparr>matchedTerms = 1, totalTerms = 2, confidence = JsNumber (3 / 16)\<rparr>] \<and>
   matchInfos (searchAdministrativeUnits exEnv ''Nakawa, Kampala'' 100) \<noteq>
     map (specMatchInfo 2)
       (sliceTo 100 (jsSort cmpCombined (seedsOf exEnv (parseQuery ''Nakawa, Kampala''))))"
  by code_simp

section \<open>The size of the pools\<close>

lemma length_fuzzy:
  "length (fuzzySearchSingleTerm env term k) =
     length (districtFuse env term k) + length (countyFuse env term k) +
     length (subCountyFuse env term k) + length (parishFuse env term k) +
     length (villageFuse env term k)"
  by (simp add: fuzzySearchSingleTerm_def)

lemma filter_type_fuzzy:
  "length (filter (\<lambda>r. r_type r = ty) (fuzzySearchSingleTerm env term k)) =
     (case ty of
        TDistrict \<Rightarrow> length (districtFuse env term k)
      | TCounty \<Rightarrow> length (countyFuse env term k)
      | TSubCounty \<Rightarrow> length (subCountyFuse env term k)
      | TParish \<Rightarrow> length (parishFuse env term k)
      | TVillage \<Rightarrow> length (villageFuse env term k))"
  by (cases ty) (simp_all add: fuzzySearchSingleTerm_def filter_map comp_def)

lemma pool_cap:
  assumes "fuseHonoursLimit env"
  shows "length (fuzzySearchSingleTerm env term 30) \<le> 150"
    and "length (filter (\<lambda>r. r_type r = ty) (fuzzySearchSingleTerm env term 30)) \<le> 30"
proof -
  have c: "length (districtFuse env term 30) \<le> 30" "length (countyFuse env term 30) \<le> 30"
    "length (subCountyFuse env term 30) \<le> 30" "length (parishFuse env term 30) \<le> 30"
    "length (villageFuse env term 30) \<le> 30"
    using assms unfolding fuseHonoursLimit_def by (auto dest!: spec [of _ "term"] spec [of _ 30])
  show "length (fuzzySearchSingleTerm env term 30) \<le> 150"
    using c by (simp add: length_fuzzy)
  show "length (filter (\<lambda>r. r_type r = ty) (fuzzySearchSingleTerm env term 30)) \<le> 30"
    using c by (cases ty) (simp_all add: filter_type_fuzzy)
qed

text \<open>
  Claim C10. When the indexes return at most as many hits as the limit they are given, a
  query with two or more terms builds for every term a pool of at most 30 candidates per
  level and 150 in all, whatever limit the caller gave, and the returned list has at most
  150 entries for every limit.
\<close>

theorem multi_term_pool_cap:
  assumes "fuseHonoursLimit env" and "2 \<le> length (parseQuery query)"
  shows "list_all (\<lambda>tr. length (snd tr) \<le> 150 \<and>
                        list_all (\<lambda>ty. length (filter (\<lambda>r. r_type r = ty) (snd tr)) \<le> 30)
                          [TDistrict, TCounty, TSubCounty, TParish, TVillage])
           (termResultsOf env (parseQuery query)) \<and>
         searchAdministrativeUnits env query maxResults =
           Inr (Ranked (map (toRanked (length (parseQuery query)))
             (sliceTo maxResults (jsSort cmpCombined (seedsOf env (parseQuery query)))))) \<and>
         length (map (toRanked (length (parseQuery query)))
             (sliceTo maxResults (jsSort cmpCombined (seedsOf env (parseQuery query))))) \<le> 150"
proof -
  obtain t ts where p: "parseQuery query = t # ts"
    using assms(2) by (cases "parseQuery query") auto
  have pools: "list_all (\<lambda>tr. length (snd tr) \<le> 150 \<and>
                        list_all (\<lambda>ty. length (filter (\<lambda>r. r_type r = ty) (snd tr)) \<le> 30)
                          [TDistrict, TCounty, TSubCounty, TParish, TVillage])
           (termResultsOf env (parseQuery query))"
    by (simp add: termResultsOf_def list_all_iff pool_cap [OF assms(1)])
  have "length (seedsOf env (parseQuery query)) = length (fuzzySearchSingleTerm env t 30)"
    unfolding p seedsOf_Cons by simp
  then have "length (seedsOf env (parseQuery query)) \<le> 150"
    using pool_cap(1) [OF assms(1), of t] by simp
  then have "length (sliceTo maxResults (jsSort cmpCombined (seedsOf env (parseQuery query)))) \<le> 150"
    using length_sliceTo_le [of maxResults "jsSort cmpCombined (seedsOf env (parseQuery query))"]
    by (simp add: length_jsSort)
  then show ?thesis
    using pools search_multi [OF assms(2), of env maxResults] by simp
qed

lemma exEnv_honours: "fuseHonoursLimit exEnv"
  by (simp add: fuseHonoursLimit_def exEnv_def exLimit_def)

theorem multi_term_pool_cap_witness:
  "fuseHonoursLimit exEnv \<and> 2 \<le> length (parseQuery ''Nakawa, Kampala'') \<and>
   resultCount (searchAdministrativeUnits exEnv ''Nakawa, Kampala'' 1000) = Some 3 \<and>
   length (map (toRanked (length (parseQuery ''Nakawa, Kampala'')))
             (sliceTo 1000 (jsSort cmpCombined (seedsOf exEnv (parseQuery ''Nakawa, Kampala'')))))
     \<le> 150"
proof -
  have h: "2 \<le> length (parseQuery ''Nakawa, Kampala'')" by code_simp
  have v: "resultCount (searchAdministrativeUnits exEnv ''Nakawa, Kampala'' 1000) = Some 3"
    by code_simp
  show ?thesis
    using h v exEnv_honours multi_term_pool_cap [OF exEnv_honours h, of 1000] by simp
qed

section \<open>Hierarchy chains\<close>

lemma find_mem: "find P xs = Some x \<Longrightarrow> x \<in> set xs"
  by (auto simp: find_Some_iff)

lemma mapGet_mem: "mapGet key xs k = Some x \<Longrightarrow> x \<in> set xs"
  unfolding mapGet_def by (drule find_mem) simp

lemma chain_district:
  "getHierarchyChain env ''district'' ident = emptyChain\<lparr>districtId := Some ident\<rparr>"
  by (simp add: getHierarchyChain_def)

lemma chain_unknown:
  "type \<noteq> ''district'' \<Longrightarrow> \<not> knownUnit env type ident \<Longrightarrow>
   getHierarchyChain env type ident = emptyChain"
  by (auto simp: getHierarchyChain_def knownUnit_def split: if_splits)

lemma chain_own:
  "knownUnit env type ident \<Longrightarrow> ownLevelId type (getHierarchyChain env type ident) = Some ident"
  by (auto simp: getHierarchyChain_def knownUnit_def ownLevelId_def emptyChain_def Let_def
      split: if_splits option.splits)

lemma chain_district_link:
  "type \<noteq> ''district'' \<Longrightarrow>
   districtId (getHierarchyChain env type ident) =
     Option.bind (countyId (getHierarchyChain env type ident)) (countyParent env)"
  by (auto simp: getHierarchyChain_def countyParent_def emptyChain_def Let_def
      split: option.splits)

lemma chain_county_link:
  "type \<noteq> ''district'' \<Longrightarrow> type \<noteq> ''county'' \<Longrightarrow>
   countyId (getHierarchyChain env type ident) =
     Option.bind (subCountyId (getHierarchyChain env type ident)) (subCountyParent env)"
  by (auto simp: getHierarchyChain_def subCountyParent_def emptyChain_def Let_def
      split: option.splits)

lemma chain_subCounty_link:
  "type \<noteq> ''district'' \<Longrightarrow> type \<noteq> ''county'' \<Longrightarrow> type \<noteq> ''subCounty'' \<Longrightarrow>
   subCountyId (getHierarchyChain env type ident) =
     Option.bind (parishId (getHierarchyChain env type ident)) (parishParent env)"
  by (auto simp: getHierarchyChain_def parishParent_def emptyChain_def Let_def
      split: option.splits)

lemma chain_parish_link:
  "type \<noteq> ''district'' \<Longrightarrow> type \<noteq> ''county'' \<Longrightarrow> type \<noteq> ''subCounty'' \<Longrightarrow>
   type \<noteq> ''parish'' \<Longrightarrow>
   parishId (getHierarchyChain env type ident) =
     Option.bind (villageId (getHierarchyChain env type ident)) (villageParent env)"
  by (auto simp: getHierarchyChain_def villageParent_def emptyChain_def Let_def
      split: option.splits)

lemma wf_county:
  "wellFormed env \<Longrightarrow> subCountyMap env i = Some s \<Longrightarrow> \<exists>c. countyMap env (s_county s) = Some c"
  unfolding wellFormed_def subCountyMap_def by (auto simp: list_all_iff dest!: mapGet_mem)

lemma wf_subCounty:
  "wellFormed env \<Longrightarrow> parishMap env i = Some p \<Longrightarrow>
   \<exists>s. subCountyMap env (p_subcounty p) = Some s"
  unfolding wellFormed_def parishMap_def by (auto simp: list_all_iff dest!: mapGet_mem)

lemma wf_parish:
  "wellFormed env \<Longrightarrow> find (\<lambda>v. v_id v = i) (villages env) = Some v \<Longrightarrow>
   \<exists>p. parishMap env (v_parish v) = Some p"
  unfolding wellFormed_def by (auto simp: list_all_iff dest!: find_mem)

lemma chain_wellFormed:
  assumes wf: "wellFormed env" and k: "knownUnit env type ident"
  shows "ancestorsPresent type (getHierarchyChain env type ident)"
proof -
  consider "type = ''district''" | "type = ''county''" | "type = ''subCounty''"
    | "type = ''parish''" | "type = ''village''"
    using k by (auto simp: knownUnit_def split: if_splits)
  then show ?thesis
  proof cases
    case 1
    then show ?thesis by (simp add: ancestorsPresent_def)
  next
    case 2
    then show ?thesis using k
      by (auto simp: ancestorsPresent_def getHierarchyChain_def knownUnit_def emptyChain_def)
  next
    case 3
    then obtain s where s: "subCountyMap env ident = Some s"
      using k by (auto simp: knownUnit_def)
    obtain c where "countyMap env (s_county s) = Some c" using wf_county [OF wf s] by blast
    then show ?thesis using 3 s
      by (simp add: ancestorsPresent_def getHierarchyChain_def emptyChain_def)
  next
    case 4
    then obtain p where p: "parishMap env ident = Some p"
      using k by (auto simp: knownUnit_def)
    obtain s where s: "subCountyMap env (p_subcounty p) = Some s"
      using wf_subCounty [OF wf p] by blast
    obtain c where "countyMap env (s_county s) = Some c" using wf_county [OF wf s] by blast
    then show ?thesis using 4 p s
      by (simp add: ancestorsPresent_def getHierarchyChain_def emptyChain_def)
  next
    case 5
    then obtain v where v: "find (\<lambda>v. v_id v = ident) (villages env) = Some v"
      using k by (auto simp: knownUnit_def)
    obtain p where p: "parishMap env (v_parish v) = Some p" using wf_parish [OF wf v] by blast
    obtain s where s: "subCountyMap env (p_subcounty p) = Some s"
      using wf_subCounty [OF wf p] by blast
    obtain c where "countyMap env (s_county s) = Some c" using wf_county [OF wf s] by blast
    then show ?thesis using 5 v p s
      by (simp add: ancestorsPresent_def getHierarchyChain_def)
  qed
qed

text \<open>
  Claim C7, as amended. The chain is a value for every type and identifier (no path of the
  function throws). For the type \<open>district\<close> it holds just the given identifier, known or
  not. For the other four types an unknown identifier gives the empty chain, as does any
  other type string, and a known identifier stands at its own level. Every level above the
  unit's own holds the parent reference of the identifier one level below, and nothing when
  that identifier is absent or does not resolve: an unresolved parent reference leaves all
  levels above it empty. With well-formed reference data a known unit has an identifier at
  every ancestor level.
\<close>

theorem hierarchy_chain_partial:
  "getHierarchyChain env ''district'' ident = emptyChain\<lparr>districtId := Some ident\<rparr> \<and>
   (type \<noteq> ''district'' \<and> \<not> knownUnit env type ident \<longrightarrow>
      getHierarchyChain env type ident = emptyChain) \<and>
   (knownUnit env type ident \<longrightarrow>
      ownLevelId type (getHierarchyChain env type ident) = Some ident) \<and>
   (type \<noteq> ''district'' \<longrightarrow>
      districtId (getHierarchyChain env type ident) =
        Option.bind (countyId (getHierarchyChain env type ident)) (countyParent env)) \<and>
   (type \<notin> set [''district'', ''county''] \<longrightarrow>
      countyId (getHierarchyChain env type ident) =
        Option.bind (subCountyId (getHierarchyChain env type ident)) (subCountyParent env)) \<and>
   (type \<notin> set [''district'', ''county'', ''subCounty''] \<longrightarrow>
      subCountyId (getHierarchyChain env type ident) =
        Option.bind (parishId (getHierarchyChain env type ident)) (parishParent env)) \<and>
   (type \<notin> set [''district'', ''county'', ''subCounty'', ''parish''] \<longrightarrow>
      parishId (getHierarchyChain env type ident) =
        Option.bind (villageId (getHierarchyChain env type ident)) (villageParent env)) \<and>
   (wellFormed env \<and> knownUnit env type ident \<longrightarrow>
      ancestorsPresent type (getHierarchyChain env type ident))"
  using chain_district chain_unknown chain_own chain_district_link chain_county_link
    chain_subCounty_link chain_parish_link chain_wellFormed
  by simp

text \<open>
  An unknown county gives the empty chain; the village \<open>V2\<close> names the unknown parish \<open>P9\<close>,
  so its chain stops there; in the well-formed data the village \<open>V1\<close> has its full chain.
\<close>

theorem hierarchy_chain_partial_witness:
  "\<not> knownUnit exEnv ''county'' ''zz'' \<and>
   getHierarchyChain exEnv ''county'' ''zz'' = emptyChain \<and>
   knownUnit exEnv ''village'' ''V2'' \<and>
   villageParent exEnv ''V2'' = Some ''P9'' \<and> parishParent exEnv ''P9'' = None \<and>
   getHierarchyChain exEnv ''village'' ''V2'' =
     \<lparr>districtId = None, countyId = None, subCountyId = None,
      parishId = Some ''P9'', villageId = Some ''V2''\<rparr> \<and>
   wellFormed exEnvWF \<and> knownUnit exEnvWF ''village'' ''V1'' \<and>
   getHierarchyChain exEnvWF ''village'' ''V1'' =
     \<lparr>districtId = Some ''D1'', countyId = Some ''C1'', subCountyId = Some ''S1'',
      parishId = Some ''P1'', villageId = Some ''V1''\<rparr> \<and>
   ancestorsPresent ''village'' (getHierarchyChain exEnvWF ''village'' ''V1'')"
proof -
  have a: "\<not> knownUnit exEnv ''county'' ''zz''" by code_simp
  have b: "getHierarchyChain exEnv ''county'' ''zz'' = emptyChain"
    using a hierarchy_chain_partial [of exEnv "''zz''" "''county''"] by simp
  have c: "knownUnit exEnv ''village'' ''V2''" by code_simp
  have d: "villageParent exEnv ''V2'' = Some ''P9''" "parishParent exEnv ''P9'' = None"
    by code_simp+
  have e: "getHierarchyChain exEnv ''village'' ''V2'' =
     \<lparr>districtId = None, countyId = None, subCountyId = None,
      parishId = Some ''P9'', villageId = Some ''V2''\<rparr>"
    by code_simp
  have f: "wellFormed exEnvWF" "knownUnit exEnvWF ''village'' ''V1''" by code_simp+
  have g: "getHierarchyChain exEnvWF ''village'' ''V1'' =
     \<lparr>districtId = Some ''D1'', countyId = Some ''C1'', subCountyId = Some ''S1'',
      parishId = Some ''P1'', villageId = Some ''V1''\<rparr>"
    by code_simp
  have h: "ancestorsPresent ''village'' (getHierarchyChain exEnvWF ''village'' ''V1'')"
    using f hierarchy_chain_partial [of exEnvWF "''V1''" "''village''"] by simp
  show ?thesis
    by (intro conjI a b c d e f g h)
qed

text \<open>
  Claim C7 as stated fails: for a district identifier that is not in the data the chain is
  not empty, it holds that identifier.
\<close>

theorem unknown_district_chain_counterexample:
  "\<not> knownUnit exEnv ''district'' ''nowhere'' \<and>
   getHierarchyChain exEnv ''district'' ''nowhere'' =
     \<lparr>districtId = Some ''nowhere'', countyId = None, subCountyId = None,
      parishId = None, villageId = None\<rparr> \<and>
   getHierarchyChain exEnv ''district'' ''nowhere'' \<noteq> emptyChain"
  by code_simp

section \<open>Similarity of accepted matches\<close>

lemma specFuzzyIndex_hit:
  assumes "h \<in> set (specFuzzyIndex dissimilarity nameOf rows term limit)"
  shows "fuseScore h = dissimilarity (toLowerCase term) (toLowerCase (nameOf (item h))) \<and>
         fuseScore h < 4 / 10"
proof -
  have "h \<in> set (jsSort cmpFuseScore
                (map (\<lambda>x. \<lparr>item = x,
                            fuseScore = dissimilarity (toLowerCase term) (toLowerCase (nameOf x))\<rparr>)
                   (filter (\<lambda>x. dissimilarity (toLowerCase term) (toLowerCase (nameOf x)) < 4 / 10)
                      rows)))"
    using assms by (auto simp: specFuzzyIndex_def split: if_splits dest: in_set_takeD)
  then show ?thesis by (auto simp: set_jsSort)
qed

lemma specFuzzyIndex_limit:
  "0 \<le> limit \<Longrightarrow> length (specFuzzyIndex dissimilarity nameOf rows term limit) \<le> nat limit"
  by (simp add: specFuzzyIndex_def)

lemma specEnv_honours: "fuseHonoursLimit (specEnv dissimilarity ds cs ss ps vs)"
  by (simp add: fuseHonoursLimit_def specEnv_def specFuzzyIndex_limit)

lemma orZero_id: "orZero s = s"
  by (simp add: orZero_def)

lemma fuzzy_specEnv_hit:
  assumes "r \<in> set (fuzzySearchSingleTerm (specEnv dissimilarity ds cs ss ps vs) term limit)"
  shows "score r = 1 - dissimilarity (toLowerCase term) (toLowerCase (r_name r)) \<and>
         dissimilarity (toLowerCase term) (toLowerCase (r_name r)) < 4 / 10"
  using assms
  by (auto simp: fuzzySearchSingleTerm_def specEnv_def orZero_id dest!: specFuzzyIndex_hit)

text \<open>
  Claim C9. With the fuzzy indexes of section 4.2 of the specification over a normalised
  dissimilarity, every candidate that the single-term matcher produces, at any level, has
  the similarity 1 minus the dissimilarity of term and name, above 0.6 and at most 1, and
  the similarity 1 when the name equals the term up to case.
\<close>

theorem accepted_match_similarity:
  assumes "normalised dissimilarity"
    and "r \<in> set (fuzzySearchSingleTerm (specEnv dissimilarity ds cs ss ps vs) term limit)"
  shows "score r = 1 - dissimilarity (toLowerCase term) (toLowerCase (r_name r)) \<and>
         6 / 10 < score r \<and> score r \<le> 1 \<and>
         (toLowerCase (r_name r) = toLowerCase term \<longrightarrow> score r = 1)"
proof -
  let ?d = "dissimilarity (toLowerCase term) (toLowerCase (r_name r))"
  have s: "score r = 1 - ?d" and lt: "?d < 4 / 10"
    using fuzzy_specEnv_hit [OF assms(2)] by simp_all
  have "0 \<le> ?d" using assms(1) by (simp add: normalised_def)
  moreover have "?d = 0" if "toLowerCase (r_name r) = toLowerCase term"
    using assms(1) that by (simp add: normalised_def)
  ultimately show ?thesis using s lt by auto
qed

lemma exDissimilarity_normalised: "normalised exDissimilarity"
  by (simp add: normalised_def exDissimilarity_def)

theorem accepted_match_similarity_witness:
  "normalised exDissimilarity \<and>
   map (\<lambda>r. (r_id r, score r)) (fuzzySearchSingleTerm exSpecEnv ''KAMPALA'' 5) = [(''D1'', 1)] \<and>
   map (\<lambda>r. (r_id r, score r)) (fuzzySearchSingleTerm exSpecEnv ''Nakaseke'' 5) =
     [(''C1'', 3 / 4), (''C2'', 3 / 4), (''S1'', 3 / 4)] \<and>
   6 / 10 < score (hd (fuzzySearchSingleTerm exSpecEnv ''Nakaseke'' 5)) \<and>
   score (hd (fuzzySearchSingleTerm exSpecEnv ''KAMPALA'' 5)) = 1"
proof -
  have a: "map (\<lambda>r. (r_id r, score r)) (fuzzySearchSingleTerm exSpecEnv ''KAMPALA'' 5)
      = [(''D1'', 1)]"
    by code_simp
  have b: "map (\<lambda>r. (r_id r, score r)) (fuzzySearchSingleTerm exSpecEnv ''Nakaseke'' 5) =
     [(''C1'', 3 / 4), (''C2'', 3 / 4), (''S1'', 3 / 4)]"
    by code_simp
  have m1: "hd (fuzzySearchSingleTerm exSpecEnv ''Nakaseke'' 5)
      \<in> set (fuzzySearchSingleTerm exSpecEnv ''Nakaseke'' 5)"
    using b by (intro hd_in_set) auto
  have m2: "hd (fuzzySearchSingleTerm exSpecEnv ''KAMPALA'' 5)
      \<in> set (fuzzySearchSingleTerm exSpecEnv ''KAMPALA'' 5)"
    using a by (intro hd_in_set) auto
  have n: "toLowerCase (r_name (hd (fuzzySearchSingleTerm exSpecEnv ''KAMPALA'' 5)))
      = toLowerCase ''KAMPALA''"
    by code_simp
  have c: "6 / 10 < score (hd (fuzzySearchSingleTerm exSpecEnv ''Nakaseke'' 5))"
    using accepted_match_similarity [OF exDissimilarity_normalised m1 [unfolded exSpecEnv_def]]
    by (simp add: exSpecEnv_def)
  have d: "score (hd (fuzzySearchSingleTerm exSpecEnv ''KAMPALA'' 5)) = 1"
    using accepted_match_similarity [OF exDissimilarity_normalised m2 [unfolded exSpecEnv_def]] n
    by (simp add: exSpecEnv_def)
  show ?thesis
    by (intro conjI exDissimilarity_normalised a b c d)
qed

end
